theory Spec2Isabelle
  imports Complex_Main
begin

section \<open>Python values and exceptions\<close>

text \<open>
  Every exception the two laboratory modules can raise is a value. The string is the
  message (or, for \<open>KeyError\<close>, the missing key).
\<close>

datatype error =
    KeyError string
  | ValueError string
  | TypeError string
  | IndexError string
  | AttributeError string
  | FileNotFoundError string

text \<open>Python's \<open>str(i)\<close> on an integer: the decimal numeral, with a minus sign.\<close>

definition digit_char :: "nat \<Rightarrow> char" where
  "digit_char d = ''0123456789'' ! (d mod 10)"

function str_nat :: "nat \<Rightarrow> string" where
  "str_nat n = (if n < 10 then [digit_char n] else str_nat (n div 10) @ [digit_char (n mod 10)])"
  by pat_completeness auto
termination
  by (relation "measure (\<lambda>n. n)") auto

definition str_int :: "int \<Rightarrow> string" where
  "str_int i = (if i < 0 then CHR ''-'' # str_nat (nat (- i)) else str_nat (nat i))"

section \<open>The tensor operation used by the classifier\<close>

text \<open>
  \<open>torch.argmax(logits, dim=1)\<close>: for every row the position of its greatest entry, the
  first one where several are greatest. A row of no entries has no arg-max
  (torch raises an IndexError). Logits are values of any linear order.
\<close>

fun argmax_scan :: "'a::linorder list \<Rightarrow> nat \<Rightarrow> 'a \<Rightarrow> nat \<Rightarrow> nat" where
  "argmax_scan [] i best pos = pos"
| "argmax_scan (y # ys) i best pos =
     (if best < y then argmax_scan ys (Suc i) y i else argmax_scan ys (Suc i) best pos)"

definition argmax :: "'a::linorder list \<Rightarrow> error + int" where
  "argmax row =
     (case row of
        [] \<Rightarrow> Inl (IndexError ''argmax(): Expected reduction dim 1 to have non-zero size.'')
      | x # xs \<Rightarrow> Inr (int (argmax_scan xs 1 x 0)))"

fun argmax_dim1 :: "'a::linorder list list \<Rightarrow> error + int list" where
  "argmax_dim1 [] = Inr []"
| "argmax_dim1 (row # rows) =
     (case argmax row of
        Inl e \<Rightarrow> Inl e
      | Inr i \<Rightarrow> (case argmax_dim1 rows of Inl e \<Rightarrow> Inl e | Inr is \<Rightarrow> Inr (i # is)))"

text \<open>What it means for \<open>i\<close> to be the arg-max of a row.\<close>

definition is_argmax :: "'a::linorder list \<Rightarrow> nat \<Rightarrow> bool" where
  "is_argmax row i \<longleftrightarrow>
     i < length row \<and> (\<forall>j < length row. row ! j \<le> row ! i) \<and> (\<forall>j < i. row ! j < row ! i)"

section \<open>Tables\<close>

text \<open>
  A pandas \<open>DataFrame\<close>: ordered column names, one index label per row, and the rows.
  A cell holds text, an integer, or nothing (\<open>None\<close>/\<open>NaN\<close>). A \<open>Series\<close> is one
  column with the index. The operations below are the pandas calls the two modules make
  (pandas 2.1 or later), each with the exception it raises.
\<close>

datatype cell = Text string | Code int | Missing

record frame =
  df_columns :: "string list"
  df_index :: "nat list"
  df_rows :: "cell list list"

record series =
  s_index :: "nat list"
  s_values :: "cell list"

definition wf_frame :: "frame \<Rightarrow> bool" where
  "wf_frame df \<longleftrightarrow>
     distinct (df_columns df) \<and> distinct (df_index df) \<and>
     length (df_index df) = length (df_rows df) \<and>
     list_all (\<lambda>r. length r = length (df_columns df)) (df_rows df)"

text \<open>\<open>len(df)\<close>\<close>

definition len_frame :: "frame \<Rightarrow> nat" where
  "len_frame df = length (df_rows df)"

text \<open>The cell of a row under a column name (the first column of that name).\<close>

definition cell_of :: "string list \<Rightarrow> cell list \<Rightarrow> string \<Rightarrow> cell" where
  "cell_of cols r c = (case map_of (zip cols r) c of Some v \<Rightarrow> v | None \<Rightarrow> Missing)"

text \<open>\<open>df.drop(labels, axis=1)\<close>: a KeyError when a label is no column.\<close>

definition drop_columns :: "string list \<Rightarrow> frame \<Rightarrow> error + frame" where
  "drop_columns labels df =
     (case filter (\<lambda>l. l \<notin> set (df_columns df)) labels of
        [] \<Rightarrow>
          Inr (df\<lparr>df_columns := filter (\<lambda>c. c \<notin> set labels) (df_columns df),
                  df_rows := map (\<lambda>r. map snd (filter (\<lambda>(c, x). c \<notin> set labels)
                                                 (zip (df_columns df) r))) (df_rows df)\<rparr>)
      | l # _ \<Rightarrow> Inl (KeyError l))"

text \<open>\<open>df.rename(columns=mapping)\<close>: names the mapping does not mention stay.\<close>

definition rename_columns :: "(string \<times> string) list \<Rightarrow> frame \<Rightarrow> frame" where
  "rename_columns m df =
     df\<lparr>df_columns := map (\<lambda>c. case map_of m c of None \<Rightarrow> c | Some c' \<Rightarrow> c')
                           (df_columns df)\<rparr>"

text \<open>\<open>df.dropna()\<close>: the rows with no missing cell, under their old labels.\<close>

definition dropna :: "frame \<Rightarrow> frame" where
  "dropna df =
     (let kept = filter (\<lambda>(i, r). Missing \<notin> set r) (zip (df_index df) (df_rows df))
      in df\<lparr>df_index := map fst kept, df_rows := map snd kept\<rparr>)"

text \<open>\<open>df.drop_duplicates()\<close>: the first occurrence of every row, under its old label.\<close>

fun first_occurrences :: "cell list list \<Rightarrow> (nat \<times> cell list) list \<Rightarrow> (nat \<times> cell list) list" where
  "first_occurrences seen [] = []"
| "first_occurrences seen ((i, r) # rest) =
     (if r \<in> set seen then first_occurrences seen rest
      else (i, r) # first_occurrences (r # seen) rest)"

definition drop_duplicates :: "frame \<Rightarrow> frame" where
  "drop_duplicates df =
     (let kept = first_occurrences [] (zip (df_index df) (df_rows df))
      in df\<lparr>df_index := map fst kept, df_rows := map snd kept\<rparr>)"

text \<open>
  \<open>df[c]\<close>: a KeyError when no column has the name, the column as a Series when one
  has, and a sub-frame (of no use to the callers here) when several have.
\<close>

datatype selection = Column series | SubFrame

definition column_values :: "frame \<Rightarrow> string \<Rightarrow> cell list" where
  "column_values df c = map (\<lambda>r. cell_of (df_columns df) r c) (df_rows df)"

definition getitem :: "frame \<Rightarrow> string \<Rightarrow> error + selection" where
  "getitem df c =
     (if c \<notin> set (df_columns df) then Inl (KeyError c)
      else if length (filter (\<lambda>c'. c' = c) (df_columns df)) = 1
      then Inr (Column \<lparr>s_index = df_index df, s_values = column_values df c\<rparr>)
      else Inr SubFrame)"

text \<open>\<open>df[c] = values\<close> for a column that exists, the values in row order.\<close>

definition setitem :: "frame \<Rightarrow> string \<Rightarrow> cell list \<Rightarrow> frame" where
  "setitem df c vals =
     df\<lparr>df_rows := map (\<lambda>(r, v). map (\<lambda>(name, x). if name = c then v else x)
                                       (zip (df_columns df) r))
                        (zip (df_rows df) vals)\<rparr>"

text \<open>\<open>series.map(dict)\<close>: a value that is no key of the dict becomes missing.\<close>

definition map_dict :: "(string \<times> int) list \<Rightarrow> cell \<Rightarrow> cell" where
  "map_dict d c =
     (case c of
        Text s \<Rightarrow> (case map_of d s of Some k \<Rightarrow> Code k | None \<Rightarrow> Missing)
      | _ \<Rightarrow> Missing)"

text \<open>\<open>df.reset_index(inplace=True, drop=True)\<close>\<close>

definition reset_index :: "frame \<Rightarrow> frame" where
  "reset_index df = df\<lparr>df_index := [0 ..< length (df_rows df)]\<rparr>"

text \<open>
  \<open>series.str.replace("(CNN)", "")\<close>, a literal pattern (the default since pandas 2.0):
  every occurrence of the five characters is removed from a text cell, and a cell that
  is no text becomes missing. The \<open>.str\<close> accessor itself raises an AttributeError on a
  column whose present values are all numbers.
\<close>

function remove_CNN :: "string \<Rightarrow> string" where
  "remove_CNN s =
     (if s = [] then []
      else if take 5 s = ''(CNN)'' then remove_CNN (drop 5 s)
      else hd s # remove_CNN (tl s))"
  by pat_completeness auto
termination
  by (relation "measure length") auto

definition str_replace_CNN :: "cell \<Rightarrow> cell" where
  "str_replace_CNN c = (case c of Text s \<Rightarrow> Text (remove_CNN s) | _ \<Rightarrow> Missing)"

definition is_Text :: "cell \<Rightarrow> bool" where
  "is_Text c = (case c of Text _ \<Rightarrow> True | _ \<Rightarrow> False)"

definition text_of :: "cell \<Rightarrow> string" where
  "text_of c = (case c of Text s \<Rightarrow> s | _ \<Rightarrow> [])"

definition code_of :: "cell \<Rightarrow> int" where
  "code_of c = (case c of Code n \<Rightarrow> n | _ \<Rightarrow> 0)"

definition is_Code :: "cell \<Rightarrow> bool" where
  "is_Code c = (case c of Code _ \<Rightarrow> True | _ \<Rightarrow> False)"

definition str_accessor_ok :: "cell list \<Rightarrow> bool" where
  "str_accessor_ok vals =
     (let present = filter (\<lambda>c. c \<noteq> Missing) vals
      in present = [] \<or> \<not> list_all is_Code present)"

section \<open>Column names\<close>

text \<open>
  Modelled from the spec: the enumeration \<open>ColumnNames\<close> of \<open>core_utils\<close> is not among the
  sources. The spec names the clean table's columns \<open>source\<close> and \<open>target\<close> and the
  predictions file's columns \<open>target\<close> and \<open>prediction\<close>; \<open>str(ColumnNames.X)\<close> and
  \<open>ColumnNames.X.value\<close> are taken to be the same string, as the two modules use them
  interchangeably.
\<close>

definition SOURCE :: string where "SOURCE = ''source''"
definition TARGET :: string where "TARGET = ''target''"
definition PREDICTION :: string where "PREDICTION = ''prediction''"

section \<open>Raw data preprocessor\<close>

text \<open>
  The preprocessor object: the raw table it was given and the clean table it produces
  (\<open>None\<close> until \<open>transform\<close> has assigned it). \<open>transform\<close> returns the exception it
  raised, if any, with the object as the exception left it.
\<close>

record preprocessor =
  raw_data :: frame
  data :: "frame option"

definition lab7_transform :: "preprocessor \<Rightarrow> error option \<times> preprocessor" where
  "lab7_transform s =
     (case drop_columns [''part'', ''movie_name'', ''review_id'', ''author'', ''date'',
                         ''title'', ''grade10''] (raw_data s) of
        Inl e \<Rightarrow> (Some e, s)
      | Inr dropped \<Rightarrow>
          (let d = dropna (rename_columns [(''grade3'', TARGET), (''content'', SOURCE)] dropped);
               s1 = s\<lparr>data := Some d\<rparr>
           in case getitem d TARGET of
                Inl e \<Rightarrow> (Some e, s1)
              | Inr SubFrame \<Rightarrow> (Some (TypeError ''the first argument must be callable''), s1)
              | Inr (Column target) \<Rightarrow>
                  (let d' = setitem d TARGET
                              (map (map_dict [(''Good'', 1), (''Bad'', 2), (''Neutral'', 0)])
                                   (s_values target))
                   in (None, s\<lparr>data := Some (reset_index d')\<rparr>))))"

definition lab8_transform :: "preprocessor \<Rightarrow> error option \<times> preprocessor" where
  "lab8_transform s =
     (case drop_columns [''id''] (raw_data s) of
        Inl e \<Rightarrow> (Some e, s)
      | Inr dropped \<Rightarrow>
          (let d = drop_duplicates
                     (rename_columns [(''highlights'', TARGET), (''article'', SOURCE)] dropped);
               s1 = s\<lparr>data := Some d\<rparr>
           in case getitem d ''source'' of
                Inl e \<Rightarrow> (Some e, s1)
              | Inr SubFrame \<Rightarrow>
                  (Some (AttributeError ''DataFrame object has no attribute str''), s1)
              | Inr (Column source) \<Rightarrow>
                  if \<not> str_accessor_ok (s_values source)
                  then (Some (AttributeError ''Can only use .str accessor with string values!''), s1)
                  else (let d' = setitem d ''source'' (map str_replace_CNN (s_values source))
                        in (None, s\<lparr>data := Some (reset_index d')\<rparr>))))"

section \<open>Task dataset and batching\<close>

text \<open>
  \<open>TaskDataset\<close> wraps a table. \<open>__getitem__\<close> looks the source column up by name and
  the row up by index label, and returns a one-element tuple. pandas raises a KeyError
  for a label that no row has; for a label that several rows have it returns a
  sub-series, on which batching raises a TypeError, raised here at the lookup.
\<close>

record task_dataset =
  ds_data :: frame




text \<open>
  \<open>DataLoader(dataset, batch_size)\<close> walks the positions \<open>0, ..., len - 1\<close> in order, in
  runs of \<open>batch_size\<close> (the last one may be shorter), and refuses a batch size that is
  not positive.
\<close>

function chunks :: "nat \<Rightarrow> 'a list \<Rightarrow> 'a list list" where
  "chunks n xs = (if n = 0 \<or> xs = [] then [] else take n xs # chunks n (drop n xs))"
  by pat_completeness auto
termination
  by (relation "measure (\<lambda>(n, xs). length xs)") auto









section \<open>Laboratory 7: the classification pipeline\<close>

text \<open>
  The pipeline object. The tokenizer and the model are the external collaborators: the
  tokenizer turns the texts of a batch and a maximum length into an encoding, the model
  turns an encoding into one row of logits per text. \<open>l7_model\<close> is \<open>None\<close> when no
  model is loaded.
\<close>

record ('enc, 'logit) llm_pipeline7 =
  l7_model_name :: string
  l7_dataset :: task_dataset
  l7_max_length :: int
  l7_batch_size :: int
  l7_device :: string
  l7_model :: "('enc \<Rightarrow> 'logit list list) option"
  l7_tokenizer :: "string list \<Rightarrow> int \<Rightarrow> 'enc"

definition lab7_infer_batch ::
  "('enc, 'logit::linorder) llm_pipeline7 \<Rightarrow> string list list \<Rightarrow> error + string list" where
  "lab7_infer_batch p sample_batch =
     (case sample_batch of
        [] \<Rightarrow> Inl (IndexError ''list index out of range'')
      | texts # _ \<Rightarrow>
          (let inputs = l7_tokenizer p texts (l7_max_length p)
           in case l7_model p of
                None \<Rightarrow> Inl (ValueError ''There is no model'')
              | Some m \<Rightarrow>
                  (case argmax_dim1 (m inputs) of
                     Inl e \<Rightarrow> Inl e
                   | Inr predicted \<Rightarrow>
                       Inr (map (\<lambda>i. if i \<noteq> 0 then str_int i else ''2'') predicted))))"

definition lab7_infer_sample ::
  "('enc, 'logit::linorder) llm_pipeline7 \<Rightarrow> string list \<Rightarrow> error + string" where
  "lab7_infer_sample p sample =
     (case l7_model p of
        None \<Rightarrow> Inl (ValueError ''There is no model'')
      | Some _ \<Rightarrow>
          (case lab7_infer_batch p [sample] of
             Inl e \<Rightarrow> Inl e
           | Inr [] \<Rightarrow> Inl (IndexError ''list index out of range'')
           | Inr (prediction # _) \<Rightarrow> Inr prediction))"


section \<open>Laboratory 8: the generation pipeline\<close>

text \<open>
  Here the model generates: from an encoding and a maximum length it produces output
  token ids, which the tokenizer decodes to one text per input.
\<close>

record ('enc, 'out) llm_pipeline8 =
  l8_model_name :: string
  l8_dataset :: task_dataset
  l8_max_length :: int
  l8_batch_size :: int
  l8_device :: string
  l8_model :: "('enc \<Rightarrow> int \<Rightarrow> 'out) option"
  l8_tokenizer :: "string list \<Rightarrow> int \<Rightarrow> 'enc"
  l8_batch_decode :: "'out \<Rightarrow> string list"

definition lab8_infer_batch ::
  "('enc, 'out) llm_pipeline8 \<Rightarrow> string list list \<Rightarrow> error + string list" where
  "lab8_infer_batch p sample_batch =
     (case l8_model p of
        None \<Rightarrow> Inl (AttributeError ''NoneType object has no attribute eval'')
      | Some m \<Rightarrow>
          (case sample_batch of
             [] \<Rightarrow> Inl (IndexError ''list index out of range'')
           | texts # _ \<Rightarrow>
               (let inputs = l8_tokenizer p texts (l8_max_length p);
                    outputs = m inputs (l8_max_length p);
                    decoded_output = l8_batch_decode p outputs
                in Inr decoded_output)))"

definition lab8_infer_sample :: "('enc, 'out) llm_pipeline8 \<Rightarrow> string list \<Rightarrow> error + string" where
  "lab8_infer_sample p sample =
     (case l8_model p of
        None \<Rightarrow> Inl (ValueError ''There is no model'')
      | Some _ \<Rightarrow>
          (case lab8_infer_batch p [sample] of
             Inl e \<Rightarrow> Inl e
           | Inr [] \<Rightarrow> Inl (IndexError ''list index out of range'')
           | Inr (prediction # _) \<Rightarrow> Inr prediction))"


section \<open>Laboratory 8: tokenized samples for training\<close>

text \<open>
  A tokenizer called on one text with \<open>padding="max_length", truncation=True,
  max_length=n\<close>. The tokenizer's own part is \<open>tk_encode\<close>, the token ids of a text cut
  to a given length; the call pads them to that length and builds the attention mask.
\<close>

record tokenizer8 =
  tk_encode :: "string \<Rightarrow> nat \<Rightarrow> int list"
  tk_pad_token_id :: int

record encoding =
  input_ids :: "int list"
  attention_mask :: "int list"

definition tokenizer_call :: "tokenizer8 \<Rightarrow> string \<Rightarrow> nat \<Rightarrow> encoding" where
  "tokenizer_call tok text n =
     (let ids = take n (tk_encode tok text n); pad = n - length ids
      in \<lparr>input_ids = ids @ replicate pad (tk_pad_token_id tok),
          attention_mask = replicate (length ids) 1 @ replicate pad 0\<rparr>)"

text \<open>
  \<open>sample[name]\<close> on a row of the table, handed to the tokenizer: a KeyError when the
  row has no such column, and the tokenizer's ValueError when the cell is no text.
\<close>

definition sample_text :: "string list \<times> cell list \<Rightarrow> string \<Rightarrow> error + string" where
  "sample_text sample name =
     (case map_of (zip (fst sample) (snd sample)) name of
        None \<Rightarrow> Inl (KeyError name)
      | Some (Text s) \<Rightarrow> Inr s
      | Some _ \<Rightarrow> Inl (ValueError ''text input must be of type str''))"

record tokenized_sample =
  ts_input_ids :: "int list"
  ts_attention_mask :: "int list"
  ts_labels :: "int list"

definition tokenize_sample ::
  "string list \<times> cell list \<Rightarrow> tokenizer8 \<Rightarrow> int \<Rightarrow> error + tokenized_sample" where
  "tokenize_sample sample tokenizer max_length =
     (case sample_text sample SOURCE of
        Inl e \<Rightarrow> Inl e
      | Inr source \<Rightarrow>
          (let tokenized_source = tokenizer_call tokenizer source 120
           in case sample_text sample TARGET of
                Inl e \<Rightarrow> Inl e
              | Inr target \<Rightarrow>
                  (let tokenized_target = tokenizer_call tokenizer target 120
                   in Inr \<lparr>ts_input_ids = input_ids tokenized_source,
                           ts_attention_mask = attention_mask tokenized_source,
                           ts_labels = input_ids tokenized_target\<rparr>)))"

text \<open>
  \<open>TokenizedTaskDataset\<close>: \<open>data.apply(..., axis=1)\<close> tokenizes every row, and \<open>list\<close>
  collects the results. On a table of no rows \<open>apply\<close> gives the empty table back, and
  \<open>list\<close> of a table is its column labels.
\<close>

datatype tokenized_item = Sample tokenized_sample | ColumnLabel string

record tokenized_task_dataset =
  tds_data :: "tokenized_item list"

fun tokenize_rows ::
  "string list \<Rightarrow> cell list list \<Rightarrow> tokenizer8 \<Rightarrow> int \<Rightarrow> error + tokenized_item list" where
  "tokenize_rows cols [] tokenizer max_length = Inr []"
| "tokenize_rows cols (r # rs) tokenizer max_length =
     (case tokenize_sample (cols, r) tokenizer max_length of
        Inl e \<Rightarrow> Inl e
      | Inr t \<Rightarrow>
          (case tokenize_rows cols rs tokenizer max_length of
             Inl e \<Rightarrow> Inl e
           | Inr ts \<Rightarrow> Inr (Sample t # ts)))"

definition TokenizedTaskDataset_init ::
  "frame \<Rightarrow> tokenizer8 \<Rightarrow> int \<Rightarrow> error + tokenized_task_dataset" where
  "TokenizedTaskDataset_init d tokenizer max_length =
     (if df_rows d = [] then Inr \<lparr>tds_data = map ColumnLabel (df_columns d)\<rparr>
      else case tokenize_rows (df_columns d) (df_rows d) tokenizer max_length of
             Inl e \<Rightarrow> Inl e
           | Inr items \<Rightarrow> Inr \<lparr>tds_data = items\<rparr>)"

definition TokenizedTaskDataset_len :: "tokenized_task_dataset \<Rightarrow> nat" where
  "TokenizedTaskDataset_len ds = length (tds_data ds)"

definition TokenizedTaskDataset_getitem ::
  "tokenized_task_dataset \<Rightarrow> int \<Rightarrow> error + tokenized_sample" where
  "TokenizedTaskDataset_getitem ds i =
     (if i < - int (TokenizedTaskDataset_len ds) \<or> int (TokenizedTaskDataset_len ds) \<le> i
      then Inl (IndexError ''list index out of range'')
      else case tds_data ds ! nat (i mod int (TokenizedTaskDataset_len ds)) of
             Sample t \<Rightarrow> Inr t
           | ColumnLabel _ \<Rightarrow>
               Inl (ValueError ''dictionary update sequence element #0 has length 1; 2 is required''))"

section \<open>Laboratory 8: the task evaluator's scorers\<close>

text \<open>
  Modelled from the spec: the enumeration \<open>Metrics\<close> and \<open>AbstractTaskEvaluator\<close> of
  \<open>core_utils\<close> are not among the sources. The constructor needs of \<open>Metrics\<close> a
  member's \<open>.value\<close>, the member \<open>ROUGE\<close>, and what \<open>member == string\<close> answers; they are
  parameters. \<open>AbstractTaskEvaluator.__init__\<close> is taken to store the requested metrics.
  \<open>load\<close> is the metric library's loader, called with an identifier and, for a seeded
  scorer, the seed.
\<close>

record 'metric metrics_enum =
  metric_value :: "'metric \<Rightarrow> string"
  ROUGE :: 'metric
  metric_eq_str :: "'metric \<Rightarrow> string \<Rightarrow> bool"

record ('metric, 'scorer) task_evaluator8 =
  te_metrics :: "'metric list"
  te_data_path :: string
  te_metrics_dict :: "'scorer list"

definition lab8_TaskEvaluator_init ::
  "'metric metrics_enum \<Rightarrow> (string \<Rightarrow> int option \<Rightarrow> 'scorer) \<Rightarrow> string \<Rightarrow> 'metric list \<Rightarrow>
   ('metric, 'scorer) task_evaluator8" where
  "lab8_TaskEvaluator_init Metrics load data_path metrics =
     \<lparr>te_metrics = metrics, te_data_path = data_path,
      te_metrics_dict =
        map (\<lambda>metric. if metric_eq_str Metrics metric (metric_value Metrics (ROUGE Metrics))
                       then load (metric_value Metrics metric) (Some 77)
                       else load (metric_value Metrics metric) None)
            metrics\<rparr>"

section \<open>Laboratory 8: the fine-tuning pipeline\<close>

text \<open>
  Modelled from the spec: \<open>SFTParams\<close> of \<open>config.lab_settings\<close> and
  \<open>AbstractSFTPipeline\<close> of \<open>core_utils\<close> are not among the sources. \<open>SFTParams\<close> has
  the five fields the constructor reads, each of the last four possibly unset;
  \<open>AbstractSFTPipeline.__init__\<close> is taken to store the model name and the dataset.
\<close>

record sft_params =
  device :: string
  finetuned_model_path :: "string option"
  max_fine_tuning_steps :: "int option"
  batch_size :: "int option"
  learning_rate :: "rat option"

record lora_config =
  lora_r :: int
  lora_alpha :: int
  lora_dropout :: rat

record training_arguments =
  output_dir :: string
  max_steps :: int
  per_device_train_batch_size :: int
  ta_learning_rate :: rat
  save_strategy :: string
  use_cpu :: bool
  load_best_model_at_end :: bool

text \<open>
  The libraries the pipeline drives, over a world \<open>'w\<close> that holds everything they can
  change (the file system, the training steps run): loading a model by name, wrapping it
  with an adapter, moving it to a device, a training run, merging the adapter, and
  saving a model or a tokenizer into a directory.
\<close>

record ('model, 'ds, 'w) sft_libraries =
  from_pretrained :: "string \<Rightarrow> 'model"
  get_peft_model :: "'model \<Rightarrow> lora_config \<Rightarrow> 'model"
  to_device :: "'model \<Rightarrow> string \<Rightarrow> 'model"
  trainer_train :: "'model \<Rightarrow> training_arguments \<Rightarrow> 'ds \<Rightarrow> 'w \<Rightarrow> 'model \<times> 'w"
  merge_and_unload :: "'model \<Rightarrow> 'model"
  save_pretrained :: "'model \<Rightarrow> string \<Rightarrow> 'w \<Rightarrow> 'w"
  tokenizer_save_pretrained :: "string \<Rightarrow> string \<Rightarrow> 'w \<Rightarrow> 'w"

text \<open>
  The pipeline object. \<open>sft_model\<close> is \<open>None\<close> when the field holds something that is no
  torch module.
\<close>

record ('model, 'ds) sft_pipeline =
  sft_model_name :: string
  sft_dataset :: 'ds
  sft_model :: "'model option"
  sft_lora_config :: lora_config
  sft_device :: string
  sft_finetuned_model_path :: "string option"
  sft_max_steps :: "int option"
  sft_per_device_train_batch_size :: "int option"
  sft_learning_rate :: "rat option"

definition SFTPipeline_init ::
  "('model, 'ds, 'w) sft_libraries \<Rightarrow> string \<Rightarrow> 'ds \<Rightarrow> sft_params \<Rightarrow> ('model, 'ds) sft_pipeline" where
  "SFTPipeline_init lib model_name dataset params =
     (let config = \<lparr>lora_r = 4, lora_alpha = 8, lora_dropout = 1 / 10\<rparr>
      in \<lparr>sft_model_name = model_name, sft_dataset = dataset,
          sft_model = Some (to_device lib (get_peft_model lib (from_pretrained lib model_name) config)
                              (device params)),
          sft_lora_config = config,
          sft_device = device params,
          sft_finetuned_model_path = finetuned_model_path params,
          sft_max_steps = max_fine_tuning_steps params,
          sft_per_device_train_batch_size = batch_size params,
          sft_learning_rate = learning_rate params\<rparr>)"

text \<open>
  \<open>run\<close> returns the exception, or the pipeline and the world as it leaves them. The
  training run changes the model in place.
\<close>

definition SFTPipeline_run ::
  "('model, 'ds, 'w) sft_libraries \<Rightarrow> ('model, 'ds) sft_pipeline \<Rightarrow> 'w \<Rightarrow>
   error + ('model, 'ds) sft_pipeline \<times> 'w" where
  "SFTPipeline_run lib p w =
     (if sft_finetuned_model_path p = None
         \<or> sft_per_device_train_batch_size p = None
         \<or> sft_max_steps p = None
         \<or> sft_learning_rate p = None
      then Inr (p, w)
      else case sft_model p of
             None \<Rightarrow> Inl (TypeError ''Wrong class of model'')
           | Some model \<Rightarrow>
               (let training_params =
                      \<lparr>output_dir = the (sft_finetuned_model_path p),
                       max_steps = the (sft_max_steps p),
                       per_device_train_batch_size = the (sft_per_device_train_batch_size p),
                       ta_learning_rate = the (sft_learning_rate p),
                       save_strategy = ''no'',
                       use_cpu = (sft_device p = ''cpu''),
                       load_best_model_at_end = False\<rparr>;
                    (trained, w1) = trainer_train lib model training_params (sft_dataset p) w;
                    merged_model = merge_and_unload lib trained;
                    w2 = save_pretrained lib merged_model (the (sft_finetuned_model_path p)) w1;
                    w3 = tokenizer_save_pretrained lib (sft_model_name p)
                           (the (sft_finetuned_model_path p)) w2
                in Inr (p\<lparr>sft_model := Some trained\<rparr>, w3)))"

section \<open>The predictions file\<close>

text \<open>
  \<open>df.to_csv(path)\<close> with pandas' defaults writes a header line and one line per row,
  the fields separated by commas and every line ended by a newline. The index is written
  too (\<open>index=True\<close> is the default): it is the first field of every row, under an
  empty name in the header. The model covers the files that need no quoting and hold no
  floating-point column; \<open>None\<close> means a table outside this fragment (a name or text with
  a comma, a quote or a line break, a number column with missing values, no columns).
\<close>

definition special_char :: "char \<Rightarrow> bool" where
  "special_char c \<longleftrightarrow> c = CHR '','' \<or> c = CHR 0x22 \<or> c = CHR 0x0A \<or> c = CHR 0x0D"

definition plain_field :: "string \<Rightarrow> bool" where
  "plain_field s \<longleftrightarrow> \<not> list_ex special_char s"

definition float_column :: "cell list \<Rightarrow> bool" where
  "float_column vals \<longleftrightarrow>
     list_ex is_Code vals \<and> list_ex (\<lambda>c. c = Missing) vals \<and>
     list_all (\<lambda>c. is_Code c \<or> c = Missing) vals"

definition render_cell :: "cell \<Rightarrow> string" where
  "render_cell c = (case c of Text s \<Rightarrow> s | Code n \<Rightarrow> str_int n | Missing \<Rightarrow> [])"

fun join_fields :: "string list \<Rightarrow> string" where
  "join_fields [] = []"
| "join_fields [f] = f"
| "join_fields (f # fs) = f @ CHR '','' # join_fields fs"

definition csv_line :: "string list \<Rightarrow> string" where
  "csv_line fs = join_fields fs @ [CHR 0x0A]"

definition to_csv :: "frame \<Rightarrow> string option" where
  "to_csv df =
     (if df_columns df = []
         \<or> list_ex (\<lambda>c. \<not> plain_field c) (df_columns df)
         \<or> list_ex (list_ex (\<lambda>c. \<not> plain_field (render_cell c))) (df_rows df)
         \<or> list_ex (\<lambda>c. float_column (column_values df c)) (df_columns df)
      then None
      else Some (csv_line ([] # df_columns df) @
                 concat (map (\<lambda>(i, r). csv_line (str_nat i # map render_cell r))
                             (zip (df_index df) (df_rows df)))))"

text \<open>
  \<open>pd.read_csv(path)\<close> with pandas' defaults, on the files whose data fields are all
  integer numerals within 64 bits: the first line names the columns, an empty name
  becoming \<open>Unnamed: k\<close> for the column at position \<open>k\<close>; blank lines are skipped; every
  column of integer numerals is read as integers; the index is the row number. \<open>None\<close>
  means a file outside this fragment.
\<close>

fun split_on :: "char \<Rightarrow> string \<Rightarrow> string list" where
  "split_on sep [] = [[]]"
| "split_on sep (c # cs) =
     (if c = sep then [] # split_on sep cs
      else (case split_on sep cs of [] \<Rightarrow> [[c]] | f # fs \<Rightarrow> (c # f) # fs))"

definition digit_of :: "char \<Rightarrow> nat option" where
  "digit_of c =
     (case filter (\<lambda>d. digit_char d = c) [0 ..< 10] of [] \<Rightarrow> None | d # _ \<Rightarrow> Some d)"

fun parse_digits :: "nat \<Rightarrow> string \<Rightarrow> nat option" where
  "parse_digits acc [] = Some acc"
| "parse_digits acc (c # cs) =
     (case digit_of c of None \<Rightarrow> None | Some d \<Rightarrow> parse_digits (10 * acc + d) cs)"

definition parse_nat :: "string \<Rightarrow> nat option" where
  "parse_nat s = (if s = [] then None else parse_digits 0 s)"

definition parse_int :: "string \<Rightarrow> int option" where
  "parse_int s =
     (case s of
        [] \<Rightarrow> None
      | c # cs \<Rightarrow> if c = CHR ''-'' then map_option (\<lambda>n. - int n) (parse_nat cs)
                  else map_option int (parse_nat s))"

definition int64 :: "int \<Rightarrow> bool" where
  "int64 n \<longleftrightarrow> - (2 ^ 63) \<le> n \<and> n < 2 ^ 63"

definition parse_int64 :: "string \<Rightarrow> int option" where
  "parse_int64 s =
     (case parse_int s of None \<Rightarrow> None | Some n \<Rightarrow> if int64 n then Some n else None)"

fun parse_fields :: "string list \<Rightarrow> cell list option" where
  "parse_fields [] = Some []"
| "parse_fields (f # fs) =
     (case parse_int64 f of
        None \<Rightarrow> None
      | Some n \<Rightarrow> (case parse_fields fs of None \<Rightarrow> None | Some cs \<Rightarrow> Some (Code n # cs)))"

fun parse_records :: "nat \<Rightarrow> string list list \<Rightarrow> cell list list option" where
  "parse_records width [] = Some []"
| "parse_records width (fs # rest) =
     (if length fs \<noteq> width then None
      else case parse_fields fs of
             None \<Rightarrow> None
           | Some r \<Rightarrow> (case parse_records width rest of None \<Rightarrow> None | Some rs \<Rightarrow> Some (r # rs)))"

definition header_names :: "string list \<Rightarrow> string list" where
  "header_names names =
     map (\<lambda>(k, name). if name = [] then ''Unnamed: '' @ str_nat k else name)
         (zip [0 ..< length names] names)"

definition read_csv :: "string \<Rightarrow> frame option" where
  "read_csv text =
     (if list_ex (\<lambda>c. c = CHR 0x22 \<or> c = CHR 0x0D) text then None
      else case filter (\<lambda>l. l \<noteq> []) (split_on (CHR 0x0A) text) of
             [] \<Rightarrow> None
           | header # lines \<Rightarrow>
               (let names = header_names (split_on (CHR '','') header)
                in if \<not> distinct names then None
                   else case parse_records (length names) (map (split_on (CHR '','')) lines) of
                          None \<Rightarrow> None
                        | Some rows \<Rightarrow>
                            Some \<lparr>df_columns = names, df_index = [0 ..< length rows],
                                  df_rows = rows\<rparr>))"

section \<open>Laboratory 7: writing and scoring the predictions\<close>

text \<open>
  The files are a map from paths to contents. The demo's \<open>main\<close> writes the table that
  \<open>infer_dataset\<close> returned to the predictions path; the evaluator's \<open>run\<close> reads the file
  back, takes the \<open>target\<close> and \<open>prediction\<close> columns as references and predictions, and
  asks every scorer for its score. A scorer is a parameter: from the references and the
  predictions (micro-averaged) to a dictionary of scores, of which \<open>run\<close> keeps the entry
  under the metric's name. \<open>None\<close> again means a file outside the fragment modelled.
\<close>

definition write_predictions ::
  "frame \<Rightarrow> string \<Rightarrow> (string \<Rightarrow> string option) \<Rightarrow> (string \<Rightarrow> string option) option" where
  "write_predictions dataset_inference predictions_path files =
     (case to_csv dataset_inference of
        None \<Rightarrow> None
      | Some text \<Rightarrow> Some (files(predictions_path \<mapsto> text)))"

record 'score task_evaluator7 =
  te7_data_path :: string
  te7_metrics_dict :: "(string \<times> (cell list \<Rightarrow> cell list \<Rightarrow> (string \<times> 'score) list)) list"

definition evaluator_inputs :: "frame \<Rightarrow> error + cell list \<times> cell list" where
  "evaluator_inputs pred_df =
     (case getitem pred_df TARGET of
        Inl e \<Rightarrow> Inl e
      | Inr SubFrame \<Rightarrow> Inl (ValueError ''references must be one-dimensional'')
      | Inr (Column references) \<Rightarrow>
          (case getitem pred_df PREDICTION of
             Inl e \<Rightarrow> Inl e
           | Inr SubFrame \<Rightarrow> Inl (ValueError ''predictions must be one-dimensional'')
           | Inr (Column predictions) \<Rightarrow> Inr (s_values references, s_values predictions)))"

fun compute_metrics ::
  "(string \<times> (cell list \<Rightarrow> cell list \<Rightarrow> (string \<times> 'score) list)) list \<Rightarrow> cell list \<Rightarrow> cell list \<Rightarrow>
   error + (string \<times> 'score) list" where
  "compute_metrics [] references predictions = Inr []"
| "compute_metrics ((metric_name, metric_evaluator) # rest) references predictions =
     (case map_of (metric_evaluator references predictions) metric_name of
        None \<Rightarrow> Inl (KeyError metric_name)
      | Some score \<Rightarrow>
          (case compute_metrics rest references predictions of
             Inl e \<Rightarrow> Inl e
           | Inr metric_counts \<Rightarrow> Inr ((metric_name, score) # metric_counts)))"

definition lab7_TaskEvaluator_run ::
  "'score task_evaluator7 \<Rightarrow> (string \<Rightarrow> string option) \<Rightarrow> (error + (string \<times> 'score) list) option" where
  "lab7_TaskEvaluator_run ev files =
     (case files (te7_data_path ev) of
        None \<Rightarrow> Some (Inl (FileNotFoundError (te7_data_path ev)))
      | Some text \<Rightarrow>
          (case read_csv text of
             None \<Rightarrow> None
           | Some pred_df \<Rightarrow>
               (case evaluator_inputs pred_df of
                  Inl e \<Rightarrow> Some (Inl e)
                | Inr (references, predictions) \<Rightarrow>
                    Some (compute_metrics (te7_metrics_dict ev) references predictions))))"

section \<open>The aligned predictions table\<close>

text \<open>
  What whole-dataset inference is to return for a table \<open>d\<close> when \<open>G\<close> is the
  prediction for a source text: under the index of \<open>d\<close>, row by row, the target of the
  row and the prediction for the source text of the row.
\<close>

definition aligned_predictions :: "frame \<Rightarrow> (string \<Rightarrow> string) \<Rightarrow> frame" where
  "aligned_predictions d G =
     \<lparr>df_columns = [TARGET, PREDICTION], df_index = df_index d,
      df_rows = map (\<lambda>r. [cell_of (df_columns d) r TARGET,
                          Text (G (text_of (cell_of (df_columns d) r SOURCE)))])
                    (df_rows d)\<rparr>"

section \<open>Test doubles\<close>

text \<open>
  A stub classifier for running the definitions: the tokenizer hands the texts on
  unchanged and the model gives every text the logits \<open>f text\<close>. The table is the
  spec's three-row scenario.
\<close>

definition stub_pipeline7 ::
  "(string \<Rightarrow> int list) \<Rightarrow> frame \<Rightarrow> int \<Rightarrow> (string list, int) llm_pipeline7" where
  "stub_pipeline7 f d n =
     \<lparr>l7_model_name = ''stub'', l7_dataset = \<lparr>ds_data = d\<rparr>, l7_max_length = 120,
      l7_batch_size = n, l7_device = ''cpu'', l7_model = Some (map f),
      l7_tokenizer = (\<lambda>texts max_length. texts)\<rparr>"

definition stub_pipeline8 ::
  "(string \<Rightarrow> string) \<Rightarrow> frame \<Rightarrow> int \<Rightarrow> (string list, string list) llm_pipeline8" where
  "stub_pipeline8 f d n =
     \<lparr>l8_model_name = ''stub'', l8_dataset = \<lparr>ds_data = d\<rparr>, l8_max_length = 120,
      l8_batch_size = n, l8_device = ''cpu'', l8_model = Some (\<lambda>texts max_length. map f texts),
      l8_tokenizer = (\<lambda>texts max_length. texts), l8_batch_decode = (\<lambda>outputs. outputs)\<rparr>"

definition three_reviews :: frame where
  "three_reviews =
     \<lparr>df_columns = [''source'', ''target''], df_index = [0, 1, 2],
      df_rows = [[Text ''good movie'', Code 1], [Text ''bad movie'', Code 2],
                 [Text ''ok movie'', Code 0]]\<rparr>"

text \<open>
  A stub tokenizer (one token per character) and stub training libraries over a world
  that records the training steps run and the directories written.
\<close>

definition stub_tokenizer8 :: tokenizer8 where
  "stub_tokenizer8 = \<lparr>tk_encode = (\<lambda>text n. take n (map (\<lambda>c. 7) text)), tk_pad_token_id = 0\<rparr>"

record stub_world =
  steps_run :: int
  directories :: "string list"

definition stub_libraries :: "(string, unit, stub_world) sft_libraries" where
  "stub_libraries =
     \<lparr>from_pretrained = (\<lambda>name. name),
      get_peft_model = (\<lambda>model config. model),
      to_device = (\<lambda>model dev. model),
      trainer_train = (\<lambda>model args ds w.
         (model, w\<lparr>steps_run := steps_run w + max_steps args,
                    directories := output_dir args # directories w\<rparr>)),
      merge_and_unload = (\<lambda>model. model),
      save_pretrained = (\<lambda>model path w. w\<lparr>directories := path # directories w\<rparr>),
      tokenizer_save_pretrained = (\<lambda>name path w. w\<lparr>directories := path # directories w\<rparr>)\<rparr>"

datatype metrics = BLEU_metric | ROUGE_metric | F1_metric


text \<open>
  Raw tables with the columns of the two datasets: three film reviews, the second with
  no text and the third with a label outside the three the preprocessor knows; and three
  news articles, the second a duplicate of the first and the third with no highlights.
\<close>

definition reviews_raw :: frame where
  "reviews_raw =
     \<lparr>df_columns = [''part'', ''movie_name'', ''review_id'', ''author'', ''date'', ''title'',
                    ''grade3'', ''grade10'', ''content''],
      df_index = [0, 1, 2],
      df_rows =
        [[Text ''top250'', Text ''A'', Text ''1'', Text ''ann'', Text ''2020'', Text ''t1'',
          Text ''Good'', Text ''9'', Text ''good movie''],
         [Text ''top250'', Text ''B'', Text ''2'', Text ''bob'', Text ''2021'', Text ''t2'',
          Text ''Bad'', Text ''2'', Missing],
         [Text ''top250'', Text ''C'', Text ''3'', Text ''cat'', Text ''2022'', Text ''t3'',
          Text ''Excellent'', Text ''10'', Text ''great movie'']]\<rparr>"

definition articles_raw :: frame where
  "articles_raw =
     \<lparr>df_columns = [''article'', ''highlights'', ''id''],
      df_index = [0, 1, 2],
      df_rows =
        [[Text ''(CNN)Rain fell.'', Text ''Rain.'', Text ''a1''],
         [Text ''(CNN)Rain fell.'', Text ''Rain.'', Text ''a1''],
         [Text ''Snow fell.'', Missing, Text ''a3'']]\<rparr>"

text \<open>
  The same two tables without the rows that have an unknown label or no highlights.
\<close>

definition reviews_labelled :: frame where
  "reviews_labelled = reviews_raw\<lparr>df_index := [0, 1], df_rows := take 2 (df_rows reviews_raw)\<rparr>"

definition articles_complete :: frame where
  "articles_complete =
     articles_raw\<lparr>df_index := [0, 1], df_rows := take 2 (df_rows articles_raw)\<rparr>"

section \<open>Decimal numerals\<close>

declare str_nat.simps [simp del]
declare chunks.simps [simp del]
declare remove_CNN.simps [simp del]


lemma str_nat_nonempty: "str_nat n \<noteq> []"
  by (induction n rule: str_nat.induct) (subst str_nat.simps, simp)



lemma str_int_2: "str_int 2 = ''2''"
  by (simp add: str_int_def str_nat.simps digit_char_def)

lemma str_int_1: "str_int 1 = ''1''"
  by (simp add: str_int_def str_nat.simps digit_char_def)

section \<open>The arg-max is the first greatest entry\<close>

lemma argmax_scan_spec:
  "pos < i \<Longrightarrow> i = length pre \<Longrightarrow> best = pre ! pos \<Longrightarrow> is_argmax pre pos \<Longrightarrow>
   is_argmax (pre @ ys) (argmax_scan ys i best pos)"
proof (induction ys arbitrary: pre i best pos)
  case Nil
  then show ?case by simp
next
  case (Cons y ys)
  show ?case
  proof (cases "best < y")
    case True
    have "is_argmax (pre @ [y]) i"
      using Cons.prems True unfolding is_argmax_def
      by (auto simp: nth_append less_Suc_eq dest: le_less_trans)
    from Cons.IH[of i "Suc i" "pre @ [y]" y] this Cons.prems True
    show ?thesis by (simp add: nth_append)
  next
    case False
    have "is_argmax (pre @ [y]) pos"
      using Cons.prems False unfolding is_argmax_def
      by (auto simp: nth_append less_Suc_eq)
    from Cons.IH[of pos "Suc i" "pre @ [y]" best] this Cons.prems False
    show ?thesis by (simp add: nth_append)
  qed
qed

lemma argmax_spec: "row \<noteq> [] \<Longrightarrow> \<exists>i. argmax row = Inr (int i) \<and> is_argmax row i"
proof (cases row)
  case Nil
  then show "row \<noteq> [] \<Longrightarrow> ?thesis" by simp
next
  case (Cons x xs)
  have "is_argmax [x] 0" by (simp add: is_argmax_def)
  with argmax_scan_spec[of 0 1 "[x]" x xs]
  have "is_argmax (x # xs) (argmax_scan xs 1 x 0)" by simp
  with Cons show ?thesis by (auto simp: argmax_def)
qed

lemma is_argmax_unique: "is_argmax row i \<Longrightarrow> is_argmax row j \<Longrightarrow> i = j"
  unfolding is_argmax_def by (metis leD linorder_neqE_nat)

lemma argmax_dim1_spec:
  "list_all (\<lambda>row. row \<noteq> []) rows \<Longrightarrow>
   \<exists>is. argmax_dim1 rows = Inr (map int is) \<and> length is = length rows \<and>
        (\<forall>k < length rows. is_argmax (rows ! k) (is ! k))"
proof (induction rows)
  case Nil
  then show ?case by simp
next
  case (Cons row rows)
  then obtain "is" where IH: "argmax_dim1 rows = Inr (map int is)" "length is = length rows"
      "\<forall>k < length rows. is_argmax (rows ! k) (is ! k)" by auto
  from Cons.prems obtain i where i: "argmax row = Inr (int i)" "is_argmax row i"
    using argmax_spec[of row] by auto
  have "\<forall>k < length (row # rows). is_argmax ((row # rows) ! k) ((i # is) ! k)"
    using IH(3) i(2) by (auto simp: nth_Cons split: nat.splits)
  with IH i show ?case
    by (intro exI[of _ "i # is"]) simp
qed

lemma argmax_dim1_map:
  "(\<And>x. x \<in> set xs \<Longrightarrow> argmax (f x) = Inr (g x)) \<Longrightarrow> argmax_dim1 (map f xs) = Inr (map g xs)"
  by (induction xs) auto

section \<open>Batch inference of the classifier\<close>


lemma lab7_infer_batch_loaded:
  "l7_model p = Some m \<Longrightarrow>
   lab7_infer_batch p (texts # rest) =
     (case argmax_dim1 (m (l7_tokenizer p texts (l7_max_length p))) of
        Inl e \<Rightarrow> Inl e
      | Inr predicted \<Rightarrow> Inr (map (\<lambda>i. if i \<noteq> 0 then str_int i else ''2'') predicted))"
  by (simp add: lab7_infer_batch_def)

lemma lab7_infer_batch_stub:
  "(\<And>t. t \<in> set texts \<Longrightarrow> argmax (f t) = Inr (g t)) \<Longrightarrow>
   lab7_infer_batch (stub_pipeline7 f d n) (texts # rest) =
     Inr (map (\<lambda>t. if g t \<noteq> 0 then str_int (g t) else ''2'') texts)"
  by (simp add: lab7_infer_batch_def stub_pipeline7_def argmax_dim1_map comp_def)



text \<open>
  One prediction per row of logits: the arg-max index, remapped.
\<close>

lemma lab7_infer_batch_rows:
  assumes "l7_model p = Some m"
    and "logits = m (l7_tokenizer p texts (l7_max_length p))"
    and "list_all (\<lambda>row. row \<noteq> []) logits"
  shows "\<exists>predictions.
           lab7_infer_batch p (texts # rest) = Inr predictions \<and>
           length predictions = length logits \<and>
           (\<forall>k < length logits. \<exists>i.
              is_argmax (logits ! k) i \<and>
              predictions ! k = (if i = 0 then ''2'' else str_int (int i)))"
proof -
  from argmax_dim1_spec[OF assms(3)] obtain "is" where
    "is": "argmax_dim1 logits = Inr (map int is)" "length is = length logits"
      "\<forall>k < length logits. is_argmax (logits ! k) (is ! k)" by blast
  let ?predictions = "map (\<lambda>i. if i \<noteq> 0 then str_int i else ''2'') (map int is)"
  have "lab7_infer_batch p (texts # rest) = Inr ?predictions"
    using assms(1,2) "is"(1) by (simp add: lab7_infer_batch_loaded)
  moreover have "length ?predictions = length logits" using "is"(2) by simp
  moreover have "\<forall>k < length logits. \<exists>i.
      is_argmax (logits ! k) i \<and> ?predictions ! k = (if i = 0 then ''2'' else str_int (int i))"
  proof (intro allI impI)
    fix k
    assume k: "k < length logits"
    with "is"(2) have "?predictions ! k = (if is ! k = 0 then ''2'' else str_int (int (is ! k)))"
      by simp
    with "is"(3) k show "\<exists>i. is_argmax (logits ! k) i \<and>
        ?predictions ! k = (if i = 0 then ''2'' else str_int (int i))" by blast
  qed
  ultimately show ?thesis by blast
qed

text \<open>
  C1, as the code has it. When a model is loaded and gives every text of the batch a
  row of at least one logit, batch inference returns one prediction per row: "2" where
  the row's arg-max is the index 0, and the decimal numeral of the arg-max index
  everywhere else (so the index 2 gives "2" as well: the codes are not swapped).
\<close>

theorem lab7_infer_batch_remap:
  assumes "l7_model p = Some m"
    and "logits = m (l7_tokenizer p texts (l7_max_length p))"
    and "list_all (\<lambda>row. row \<noteq> []) logits"
  shows "\<exists>predictions.
           lab7_infer_batch p (texts # rest) = Inr predictions \<and>
           length predictions = length logits \<and>
           (\<forall>k < length logits. \<exists>i.
              is_argmax (logits ! k) i \<and>
              predictions ! k = (if i = 0 then ''2'' else str_int (int i)))"
  using assms by (rule lab7_infer_batch_rows)

lemma is_argmax_010: "is_argmax [0, 1, 0 :: int] i \<longleftrightarrow> i = 1"
proof
  have "is_argmax [0, 1, 0 :: int] 1" by (simp add: is_argmax_def nth_Cons split: nat.splits)
  then show "is_argmax [0, 1, 0 :: int] i \<Longrightarrow> i = 1" using is_argmax_unique by blast
  show "i = 1 \<Longrightarrow> is_argmax [0, 1, 0 :: int] i"
    by (simp add: is_argmax_def nth_Cons split: nat.splits)
qed

theorem lab7_infer_batch_remap_witness:
  "lab7_infer_batch (stub_pipeline7 (\<lambda>t. [0, 1, 0]) three_reviews 64) [[''good movie'']]
     = Inr [''1'']"
proof -
  from lab7_infer_batch_remap[of "stub_pipeline7 (\<lambda>t. [0, 1, 0]) three_reviews 64"
      "map (\<lambda>t. [0, 1, 0])" "[[0, 1, 0]]" "[''good movie'']" "[]"]
  obtain predictions where
    run: "lab7_infer_batch (stub_pipeline7 (\<lambda>t. [0, 1, 0]) three_reviews 64) [[''good movie'']]
          = Inr predictions"
    and len: "length predictions = 1"
    and first: "\<exists>i. is_argmax [0, 1, 0 :: int] i \<and>
                 predictions ! 0 = (if i = 0 then ''2'' else str_int (int i))"
    by (auto simp: stub_pipeline7_def)
  from first have "predictions ! 0 = ''1''" by (auto simp: is_argmax_010 str_int_1)
  with len have "predictions = [''1'']" by (cases predictions) auto
  with run show ?thesis by simp
qed

text \<open>
  The claim's swap fails at the arg-max index 2: the stub's logits \<open>[0, 0, 1]\<close> have their
  greatest entry at index 2, and the prediction is "2", not "0".
\<close>

theorem lab7_argmax_two_counterexample:
  "argmax [0, 0, 1 :: int] = Inr 2 \<and>
   lab7_infer_batch (stub_pipeline7 (\<lambda>t. [0, 0, 1]) three_reviews 64) [[''bad movie'']] = Inr [''2''] \<and>
   ''2'' \<noteq> ''0''"
proof -
  have "lab7_infer_batch (stub_pipeline7 (\<lambda>t. [0, 0, 1]) three_reviews 64) [[''bad movie'']]
        = Inr [''2'']"
    by (subst lab7_infer_batch_stub[where g = "\<lambda>t. 2"]) (simp_all add: argmax_def str_int_2)
  then show ?thesis by (simp add: argmax_def)
qed

section \<open>Single-sample inference\<close>

lemma lab8_infer_batch_loaded:
  "l8_model p = Some m \<Longrightarrow>
   lab8_infer_batch p (texts # rest) =
     Inr (l8_batch_decode p (m (l8_tokenizer p texts (l8_max_length p)) (l8_max_length p)))"
  by (simp add: lab8_infer_batch_def Let_def)

text \<open>
  C6. In both laboratories \<open>infer_sample\<close> on a pipeline that holds no model
  raises the ValueError "There is no model" and returns no prediction. With a model
  loaded it runs the single-item batch \<open>[sample]\<close> and returns that batch's first
  prediction; it does return one whenever the model answers the batch: for the
  classifier the remapped arg-max of the first row of logits, for the generator the
  first decoded text.
\<close>

theorem infer_sample_contract:
  "(l7_model p7 = None \<longrightarrow> lab7_infer_sample p7 sample = Inl (ValueError ''There is no model'')) \<and>
   (l8_model p8 = None \<longrightarrow> lab8_infer_sample p8 sample = Inl (ValueError ''There is no model'')) \<and>
   (\<forall>m row rows.
      l7_model p7 = Some m \<and> m (l7_tokenizer p7 sample (l7_max_length p7)) = row # rows \<and>
      list_all (\<lambda>r. r \<noteq> []) (row # rows) \<longrightarrow>
      (\<exists>i prediction rest.
         is_argmax row i \<and> prediction = (if i = 0 then ''2'' else str_int (int i)) \<and>
         lab7_infer_batch p7 [sample] = Inr (prediction # rest) \<and>
         lab7_infer_sample p7 sample = Inr prediction)) \<and>
   (\<forall>m prediction rest.
      l8_model p8 = Some m \<and>
      l8_batch_decode p8 (m (l8_tokenizer p8 sample (l8_max_length p8)) (l8_max_length p8))
        = prediction # rest \<longrightarrow>
      lab8_infer_batch p8 [sample] = Inr (prediction # rest) \<and>
      lab8_infer_sample p8 sample = Inr prediction)"
proof -
  have a7: "l7_model p7 = None \<longrightarrow>
      lab7_infer_sample p7 sample = Inl (ValueError ''There is no model'')"
    by (simp add: lab7_infer_sample_def)
  have a8: "l8_model p8 = None \<longrightarrow>
      lab8_infer_sample p8 sample = Inl (ValueError ''There is no model'')"
    by (simp add: lab8_infer_sample_def)
  have b7: "\<exists>i prediction rest.
         is_argmax row i \<and> prediction = (if i = 0 then ''2'' else str_int (int i)) \<and>
         lab7_infer_batch p7 [sample] = Inr (prediction # rest) \<and>
         lab7_infer_sample p7 sample = Inr prediction"
    if h: "l7_model p7 = Some m \<and> m (l7_tokenizer p7 sample (l7_max_length p7)) = row # rows \<and>
      list_all (\<lambda>r. r \<noteq> []) (row # rows)" for m row rows
  proof -
    from lab7_infer_batch_rows[of p7 m "row # rows" sample "[]"] h
    obtain predictions where p:
      "lab7_infer_batch p7 [sample] = Inr predictions"
      "length predictions = length (row # rows)"
      "\<forall>k < length (row # rows). \<exists>i. is_argmax ((row # rows) ! k) i \<and>
          predictions ! k = (if i = 0 then ''2'' else str_int (int i))"
      by auto
    from p(2) obtain prediction rest where pr: "predictions = prediction # rest"
      by (cases predictions) auto
    from p(3) pr obtain i where i: "is_argmax row i"
      "prediction = (if i = 0 then ''2'' else str_int (int i))" by fastforce
    have "lab7_infer_sample p7 sample = Inr prediction"
      using h p(1) pr by (simp add: lab7_infer_sample_def)
    with i p(1) pr show ?thesis by blast
  qed
  have b8: "lab8_infer_batch p8 [sample] = Inr (prediction # rest) \<and>
      lab8_infer_sample p8 sample = Inr prediction"
    if "l8_model p8 = Some m \<and>
      l8_batch_decode p8 (m (l8_tokenizer p8 sample (l8_max_length p8)) (l8_max_length p8))
        = prediction # rest" for m prediction rest
    using that by (simp add: lab8_infer_sample_def lab8_infer_batch_loaded)
  from a7 a8 b7 b8 show ?thesis by blast
qed

theorem infer_sample_contract_witness:
  "lab7_infer_sample ((stub_pipeline7 (\<lambda>t. [0, 1, 0]) three_reviews 64)\<lparr>l7_model := None\<rparr>)
     [''good movie''] = Inl (ValueError ''There is no model'') \<and>
   lab8_infer_sample ((stub_pipeline8 (\<lambda>t. ''a summary'') three_reviews 64)\<lparr>l8_model := None\<rparr>)
     [''good movie''] = Inl (ValueError ''There is no model'') \<and>
   lab7_infer_sample (stub_pipeline7 (\<lambda>t. [0, 1, 0]) three_reviews 64) [''good movie'']
     = Inr ''1'' \<and>
   lab8_infer_sample (stub_pipeline8 (\<lambda>t. ''a summary'') three_reviews 64) [''good movie'']
     = Inr ''a summary''"
  using infer_sample_contract[of
      "(stub_pipeline7 (\<lambda>t. [0, 1, 0]) three_reviews 64)\<lparr>l7_model := None\<rparr>" "[''good movie'']"
      "(stub_pipeline8 (\<lambda>t. ''a summary'') three_reviews 64)\<lparr>l8_model := None\<rparr>"]
    infer_sample_contract[of
      "stub_pipeline7 (\<lambda>t. [0, 1, 0]) three_reviews 64" "[''good movie'']"
      "stub_pipeline8 (\<lambda>t. ''a summary'') three_reviews 64"]
  by (auto simp: stub_pipeline7_def stub_pipeline8_def is_argmax_010 str_int_1)

section \<open>The fine-tuning guard\<close>

text \<open>
  The guard of \<open>run\<close>, for any pipeline object: with one of the four fields unset,
  nothing happens.
\<close>

lemma SFTPipeline_run_guard:
  "sft_finetuned_model_path p = None \<or> sft_per_device_train_batch_size p = None \<or>
   sft_max_steps p = None \<or> sft_learning_rate p = None \<Longrightarrow>
   SFTPipeline_run lib p w = Inr (p, w)"
  by (simp add: SFTPipeline_run_def)

text \<open>
  C2. A fine-tuning pipeline built from parameters that leave the output path, the
  batch size, the step budget or the learning rate unset returns from \<open>run\<close> at once:
  no exception, the pipeline as it was, and the world as it was, so no training step was
  run and no directory was created.
\<close>

theorem SFTPipeline_run_unset_is_noop:
  assumes "finetuned_model_path params = None \<or> batch_size params = None \<or>
           max_fine_tuning_steps params = None \<or> learning_rate params = None"
  shows "SFTPipeline_run lib (SFTPipeline_init lib model_name dataset params) w =
           Inr (SFTPipeline_init lib model_name dataset params, w)"
proof (rule SFTPipeline_run_guard)
  show "sft_finetuned_model_path (SFTPipeline_init lib model_name dataset params) = None \<or>
        sft_per_device_train_batch_size (SFTPipeline_init lib model_name dataset params) = None \<or>
        sft_max_steps (SFTPipeline_init lib model_name dataset params) = None \<or>
        sft_learning_rate (SFTPipeline_init lib model_name dataset params) = None"
    using assms by (simp add: SFTPipeline_init_def Let_def)
qed

theorem SFTPipeline_run_unset_is_noop_witness:
  "SFTPipeline_run stub_libraries
     (SFTPipeline_init stub_libraries ''t5-small'' ()
        \<lparr>device = ''cpu'', finetuned_model_path = Some ''dist/t5-small'',
         max_fine_tuning_steps = None, batch_size = Some 3, learning_rate = Some (1 / 1000)\<rparr>)
     \<lparr>steps_run = 0, directories = []\<rparr> =
   Inr (SFTPipeline_init stub_libraries ''t5-small'' ()
        \<lparr>device = ''cpu'', finetuned_model_path = Some ''dist/t5-small'',
         max_fine_tuning_steps = None, batch_size = Some 3, learning_rate = Some (1 / 1000)\<rparr>,
        \<lparr>steps_run = 0, directories = []\<rparr>)"
  by (rule SFTPipeline_run_unset_is_noop) simp

text \<open>
  With every parameter set the same call does train and write: the guard is what makes
  the difference.
\<close>

lemma SFTPipeline_run_trains:
  "SFTPipeline_run stub_libraries
     (SFTPipeline_init stub_libraries ''t5-small'' ()
        \<lparr>device = ''cpu'', finetuned_model_path = Some ''dist/t5-small'',
         max_fine_tuning_steps = Some 50, batch_size = Some 3, learning_rate = Some (1 / 1000)\<rparr>)
     \<lparr>steps_run = 0, directories = []\<rparr> =
   Inr (SFTPipeline_init stub_libraries ''t5-small'' ()
        \<lparr>device = ''cpu'', finetuned_model_path = Some ''dist/t5-small'',
         max_fine_tuning_steps = Some 50, batch_size = Some 3, learning_rate = Some (1 / 1000)\<rparr>,
        \<lparr>steps_run = 50, directories = [''dist/t5-small'', ''dist/t5-small'', ''dist/t5-small'']\<rparr>)"
  by (simp add: SFTPipeline_run_def SFTPipeline_init_def stub_libraries_def Let_def)

lemma SFTPipeline_run_wrong_class:
  "sft_finetuned_model_path p \<noteq> None \<Longrightarrow> sft_per_device_train_batch_size p \<noteq> None \<Longrightarrow>
   sft_max_steps p \<noteq> None \<Longrightarrow> sft_learning_rate p \<noteq> None \<Longrightarrow> sft_model p = None \<Longrightarrow>
   SFTPipeline_run lib p w = Inl (TypeError ''Wrong class of model'')"
  by (simp add: SFTPipeline_run_def)

section \<open>The scorers of the laboratory-8 evaluator\<close>




text \<open>
  For an enumeration whose members never compare equal to a string, the same
  constructor seeds no scorer.
\<close>

lemma lab8_TaskEvaluator_plain_enum:
  assumes "\<And>m s. \<not> metric_eq_str Metrics m s"
  shows "te_metrics_dict (lab8_TaskEvaluator_init Metrics load data_path metrics)
           = map (\<lambda>m. load (metric_value Metrics m) None) metrics"
  using assms by (simp add: lab8_TaskEvaluator_init_def)

section \<open>Tokenized samples have length 120\<close>

lemma tokenizer_call_lengths:
  "length (input_ids (tokenizer_call tok text n)) = n \<and>
   length (attention_mask (tokenizer_call tok text n)) = n"
  by (simp add: tokenizer_call_def Let_def)

lemma tokenize_sample_lengths:
  "tokenize_sample sample tok max_length = Inr t \<Longrightarrow>
   length (ts_input_ids t) = 120 \<and> length (ts_attention_mask t) = 120 \<and> length (ts_labels t) = 120"
  by (auto simp: tokenize_sample_def Let_def tokenizer_call_lengths split: sum.splits)

lemma tokenize_sample_max_length_unused:
  "tokenize_sample sample tok max_length = tokenize_sample sample tok 120"
  by (simp add: tokenize_sample_def)

text \<open>
  C8. \<open>tokenize_sample\<close> does not read its \<open>max_length\<close> argument: called with the
  maximum length 64 it still returns input ids, attention mask and labels of length 120.
\<close>

theorem tokenize_sample_pads_to_120:
  "map_sum id (\<lambda>t. (length (ts_input_ids t), length (ts_attention_mask t), length (ts_labels t)))
     (tokenize_sample ([''source'', ''target''], [Text ''a long article'', Text ''summary''])
        stub_tokenizer8 64) = Inr (120, 120, 120)"
  by (simp add: tokenize_sample_def sample_text_def SOURCE_def TARGET_def tokenizer_call_def
      stub_tokenizer8_def Let_def)

section \<open>The preprocessors\<close>

subsection \<open>Cells of a row through the table operations\<close>

lemma zip_filter_columns:
  "length r = length cols \<Longrightarrow>
   zip (filter P cols) (map snd (filter (\<lambda>(c, x). P c) (zip cols r))) =
     filter (\<lambda>(c, x). P c) (zip cols r)"
proof (induction cols arbitrary: r)
  case Nil
  then show ?case by simp
next
  case (Cons c cols)
  then obtain x xs where "r = x # xs" "length xs = length cols" by (cases r) auto
  with Cons.IH[of xs] show ?case by simp
qed

lemma map_of_rename_filter:
  "P old \<Longrightarrow> f old = new \<Longrightarrow>
   (\<And>c. c \<in> fst ` set kvs \<Longrightarrow> P c \<Longrightarrow> c \<noteq> old \<Longrightarrow> f c \<noteq> new) \<Longrightarrow>
   map_of (map (\<lambda>(c, x). (f c, x)) (filter (\<lambda>(c, x). P c) kvs)) new = map_of kvs old"
proof (induction kvs)
  case Nil
  then show ?case by simp
next
  case (Cons kv kvs)
  obtain c x where kv: "kv = (c, x)" by (cases kv)
  have IH: "map_of (map (\<lambda>(c, x). (f c, x)) (filter (\<lambda>(c, x). P c) kvs)) new = map_of kvs old"
    using Cons by auto
  show ?case
  proof (cases "c = old")
    case True
    with kv Cons.prems(1,2) show ?thesis by simp
  next
    case False
    with Cons.prems(3)[of c] kv have "P c \<Longrightarrow> f c \<noteq> new" by simp
    with False kv IH show ?thesis by auto
  qed
qed

lemma cell_of_drop_rename:
  assumes "length r = length cols" "P old" "f old = new"
    and "\<And>c. c \<in> set cols \<Longrightarrow> P c \<Longrightarrow> c \<noteq> old \<Longrightarrow> f c \<noteq> new"
  shows "cell_of (map f (filter P cols)) (map snd (filter (\<lambda>(c, x). P c) (zip cols r))) new
         = cell_of cols r old"
proof -
  have "zip (map f (filter P cols)) (map snd (filter (\<lambda>(c, x). P c) (zip cols r)))
        = map (\<lambda>(c, x). (f c, x)) (filter (\<lambda>(c, x). P c) (zip cols r))"
    using zip_filter_columns[OF assms(1), of P] by (simp add: zip_map1)
  moreover have "map_of (map (\<lambda>(c, x). (f c, x)) (filter (\<lambda>(c, x). P c) (zip cols r))) new
        = map_of (zip cols r) old"
  proof (rule map_of_rename_filter[where P = P and f = f and old = old and new = new])
    show "P old" by (rule assms(2))
    show "f old = new" by (rule assms(3))
    fix c assume "c \<in> fst ` set (zip cols r)" "P c" "c \<noteq> old"
    then have "c \<in> set cols" by (auto dest: set_zip_leftD)
    with assms(4) \<open>P c\<close> \<open>c \<noteq> old\<close> show "f c \<noteq> new" by blast
  qed
  ultimately show ?thesis by (simp add: cell_of_def)
qed

lemma keys_zip: "length r = length cols \<Longrightarrow> fst ` set (zip cols r) = set cols"
proof -
  assume "length r = length cols"
  then have "map fst (zip cols r) = cols" by simp
  then show ?thesis by (metis set_map)
qed

lemma cell_of_in_row:
  "length r = length cols \<Longrightarrow> c \<in> set cols \<Longrightarrow> cell_of cols r c \<in> set r"
proof -
  assume len: "length r = length cols" and c: "c \<in> set cols"
  then have "c \<in> fst ` set (zip cols r)" by (simp add: keys_zip)
  then obtain v where "map_of (zip cols r) c = Some v"
    by (metis map_of_eq_None_iff not_Some_eq)
  moreover from this have "v \<in> set r" by (auto dest: map_of_SomeD set_zip_rightD)
  ultimately show ?thesis by (simp add: cell_of_def)
qed

lemma zip_map_same: "zip xs (map h xs) = map (\<lambda>x. (x, h x)) xs"
  by (induction xs) auto

lemma map_of_map_values:
  "map_of (map (\<lambda>(k, x). (k, F k x)) kvs) k = map_option (F k) (map_of kvs k)"
  by (induction kvs) auto

lemma cell_of_updated:
  assumes "length r = length cols"
  shows "cell_of cols (map (\<lambda>(name, x). if name = c then v else x) (zip cols r)) k =
           (case map_of (zip cols r) k of
              None \<Rightarrow> Missing
            | Some x \<Rightarrow> if k = c then v else x)"
proof -
  have "zip cols (map (\<lambda>(name, x). if name = c then v else x) (zip cols r))
        = map (\<lambda>(name, x). (name, if name = c then v else x)) (zip cols r)"
    using assms
  proof (induction cols arbitrary: r)
    case Nil
    then show ?case by simp
  next
    case (Cons a cols)
    then obtain x xs where "r = x # xs" "length xs = length cols" by (cases r) auto
    with Cons.IH[of xs] show ?case by simp
  qed
  then show ?thesis
    using map_of_map_values[of "\<lambda>name x. if name = c then v else x" "zip cols r" k]
    by (simp add: cell_of_def split: option.splits)
qed

lemma cell_of_updated_same:
  "length r = length cols \<Longrightarrow> c \<in> set cols \<Longrightarrow>
   cell_of cols (map (\<lambda>(name, x). if name = c then v else x) (zip cols r)) c = v"
proof -
  assume len: "length r = length cols" and c: "c \<in> set cols"
  then have "c \<in> fst ` set (zip cols r)" by (simp add: keys_zip)
  then obtain x where "map_of (zip cols r) c = Some x"
    by (metis map_of_eq_None_iff not_Some_eq)
  with len show ?thesis by (simp add: cell_of_updated)
qed

lemma cell_of_updated_other:
  "length r = length cols \<Longrightarrow> k \<noteq> c \<Longrightarrow>
   cell_of cols (map (\<lambda>(name, x). if name = c then v else x) (zip cols r)) k = cell_of cols r k"
proof -
  assume len: "length r = length cols" and neq: "k \<noteq> c"
  show ?thesis
    by (subst cell_of_updated[OF len]) (cases "map_of (zip cols r) k"; simp add: cell_of_def neq)
qed

subsection \<open>Rows and columns of the results\<close>

lemma drop_columns_ok:
  "set labels \<subseteq> set (df_columns d) \<Longrightarrow>
   drop_columns labels d =
     Inr (d\<lparr>df_columns := filter (\<lambda>c. c \<notin> set labels) (df_columns d),
            df_rows := map (\<lambda>r. map snd (filter (\<lambda>(c, x). c \<notin> set labels)
                                           (zip (df_columns d) r))) (df_rows d)\<rparr>)"
proof -
  assume "set labels \<subseteq> set (df_columns d)"
  then have "filter (\<lambda>l. l \<notin> set (df_columns d)) labels = []"
    by (auto simp: filter_empty_conv)
  then show ?thesis by (simp add: drop_columns_def)
qed

lemma rows_dropna:
  "r \<in> set (df_rows (dropna d)) \<Longrightarrow> r \<in> set (df_rows d) \<and> Missing \<notin> set r"
  by (auto simp: dropna_def Let_def dest: set_zip_rightD)

lemma columns_dropna: "df_columns (dropna d) = df_columns d"
  by (simp add: dropna_def Let_def)

lemma set_first_occurrences: "set (first_occurrences seen xs) \<subseteq> set xs"
  by (induction seen xs rule: first_occurrences.induct) auto

lemma rows_drop_duplicates:
  "r \<in> set (df_rows (drop_duplicates d)) \<Longrightarrow> r \<in> set (df_rows d)"
proof -
  assume "r \<in> set (df_rows (drop_duplicates d))"
  then obtain i where "(i, r) \<in> set (first_occurrences [] (zip (df_index d) (df_rows d)))"
    by (auto simp: drop_duplicates_def Let_def)
  with set_first_occurrences have "(i, r) \<in> set (zip (df_index d) (df_rows d))" by blast
  then show ?thesis by (rule set_zip_rightD)
qed

lemma columns_drop_duplicates: "df_columns (drop_duplicates d) = df_columns d"
  by (simp add: drop_duplicates_def Let_def)

lemma filter_eq_distinct: "distinct xs \<Longrightarrow> x \<in> set xs \<Longrightarrow> filter (\<lambda>y. y = x) xs = [x]"
proof (induction xs)
  case Nil
  then show ?case by simp
next
  case (Cons a xs)
  show ?case
  proof (cases "a = x")
    case True
    with Cons.prems have "x \<notin> set xs" by simp
    then have "filter (\<lambda>y. y = x) xs = []" by (auto simp: filter_empty_conv)
    with True show ?thesis by simp
  next
    case False
    with Cons show ?thesis by auto
  qed
qed

lemma renamed_column_once:
  assumes "distinct cols" "old \<in> set cols" "P old"
    and "\<And>c. c \<in> set cols \<Longrightarrow> (f c = new \<longleftrightarrow> c = old)"
  shows "length (filter (\<lambda>c'. c' = new) (map f (filter P cols))) = 1"
proof -
  have "filter (\<lambda>c'. c' = new) (map f (filter P cols))
        = map f (filter (\<lambda>c. f c = new) (filter P cols))"
    by (simp add: filter_map comp_def)
  also have "filter (\<lambda>c. f c = new) (filter P cols) = filter (\<lambda>c. c = old) (filter P cols)"
    using assms(4) by (intro filter_cong) auto
  also have "\<dots> = [old]"
    using assms(1,2,3) by (intro filter_eq_distinct) auto
  finally show ?thesis by simp
qed

lemma length_dropped_row:
  "length r = length cols \<Longrightarrow>
   length (map snd (filter (\<lambda>(c, x). P c) (zip cols r))) = length (filter P cols)"
proof (induction cols arbitrary: r)
  case Nil
  then show ?case by simp
next
  case (Cons c cols)
  then obtain x xs where "r = x # xs" "length xs = length cols" by (cases r) auto
  with Cons.IH[of xs] show ?case by simp
qed

lemma rows_setitem_mapped:
  "df_rows (setitem d c (map g (column_values d c))) =
     map (\<lambda>r. map (\<lambda>(name, x). if name = c then g (cell_of (df_columns d) r c) else x)
                  (zip (df_columns d) r)) (df_rows d)"
proof -
  have "zip (df_rows d) (map g (column_values d c))
        = map (\<lambda>r. (r, g (cell_of (df_columns d) r c))) (df_rows d)"
    using zip_map_same[of "df_rows d" "\<lambda>r. g (cell_of (df_columns d) r c)"]
    by (simp add: column_values_def comp_def)
  then show ?thesis by (simp add: setitem_def comp_def)
qed

lemma rows_reset_index: "df_rows (reset_index d) = df_rows d"
  by (simp add: reset_index_def)

lemma columns_reset_index: "df_columns (reset_index d) = df_columns d"
  by (simp add: reset_index_def)

lemma columns_setitem: "df_columns (setitem d c vals) = df_columns d"
  by (simp add: setitem_def)

text \<open>The cells of a column after \<open>df[c] = df[c].map(g)\<close> and \<open>reset_index\<close>.\<close>

lemma column_values_mapped:
  assumes "list_all (\<lambda>r. length r = length (df_columns d)) (df_rows d)" "c \<in> set (df_columns d)"
  shows "column_values (reset_index (setitem d c (map g (column_values d c)))) c
           = map g (column_values d c)"
    and "k \<noteq> c \<Longrightarrow>
         column_values (reset_index (setitem d c (map g (column_values d c)))) k
           = column_values d k"
proof -
  let ?new = "reset_index (setitem d c (map g (column_values d c)))"
  let ?upd = "\<lambda>r. map (\<lambda>(name, x). if name = c then g (cell_of (df_columns d) r c) else x)
                      (zip (df_columns d) r)"
  have len: "\<And>r. r \<in> set (df_rows d) \<Longrightarrow> length r = length (df_columns d)"
    using assms(1) by (simp add: list_all_iff)
  have rows: "df_rows ?new = map ?upd (df_rows d)"
    by (simp only: rows_reset_index rows_setitem_mapped)
  have cols: "df_columns ?new = df_columns d"
    by (simp only: columns_reset_index columns_setitem)
  have vals: "column_values ?new k = map (\<lambda>r. cell_of (df_columns d) (?upd r) k) (df_rows d)" for k
    unfolding column_values_def[of ?new] rows cols by (simp add: comp_def)
  show "column_values ?new c = map g (column_values d c)"
    using len assms(2) by (subst vals) (simp add: column_values_def cell_of_updated_same)
  show "k \<noteq> c \<Longrightarrow> column_values ?new k = column_values d k"
    using len by (subst vals) (simp add: column_values_def cell_of_updated_other)
qed

text \<open>
  After \<open>drop\<close> and \<open>rename\<close>, a row filter keeps rows of the raw table: the cell under
  a renamed column is the raw cell under the old name.
\<close>

lemma dropped_renamed_rows:
  assumes wf: "wf_frame raw"
    and sub: "set labels \<subseteq> set (df_columns raw)"
    and dropped: "drop_columns labels raw = Inr dropped"
    and r: "r \<in> set (df_rows dropped)"
  shows "length r = length (df_columns (rename_columns m dropped))"
    and "old \<notin> set labels \<Longrightarrow>
         (case map_of m old of None \<Rightarrow> old | Some c' \<Rightarrow> c') = new \<Longrightarrow>
         (\<And>c. c \<in> set (df_columns raw) \<Longrightarrow> c \<noteq> old \<Longrightarrow>
               (case map_of m c of None \<Rightarrow> c | Some c' \<Rightarrow> c') \<noteq> new) \<Longrightarrow>
         \<exists>rr \<in> set (df_rows raw).
            cell_of (df_columns (rename_columns m dropped)) r new
              = cell_of (df_columns raw) rr old"
proof -
  let ?P = "\<lambda>c. c \<notin> set labels"
  let ?f = "\<lambda>c. case map_of m c of None \<Rightarrow> c | Some c' \<Rightarrow> c'"
  from drop_columns_ok[OF sub] dropped have d:
    "df_columns dropped = filter ?P (df_columns raw)"
    "df_rows dropped = map (\<lambda>r. map snd (filter (\<lambda>(c, x). ?P c) (zip (df_columns raw) r)))
                         (df_rows raw)"
    by auto
  from r d(2) obtain rr where rr: "rr \<in> set (df_rows raw)"
    "r = map snd (filter (\<lambda>(c, x). ?P c) (zip (df_columns raw) rr))" by auto
  from wf rr(1) have len: "length rr = length (df_columns raw)"
    by (simp add: wf_frame_def list_all_iff)
  show "length r = length (df_columns (rename_columns m dropped))"
    using length_dropped_row[OF len, of ?P] rr(2) d(1) by (simp add: rename_columns_def)
  show "\<exists>rr \<in> set (df_rows raw).
          cell_of (df_columns (rename_columns m dropped)) r new = cell_of (df_columns raw) rr old"
    if "old \<notin> set labels" "?f old = new"
      "\<And>c. c \<in> set (df_columns raw) \<Longrightarrow> c \<noteq> old \<Longrightarrow> ?f c \<noteq> new"
  proof -
    have "cell_of (map ?f (filter ?P (df_columns raw))) r new = cell_of (df_columns raw) rr old"
      unfolding rr(2) using that by (intro cell_of_drop_rename[OF len]) auto
    with rr(1) d(1) show ?thesis by (auto simp: rename_columns_def)
  qed
qed

lemma rows_rename_columns: "df_rows (rename_columns m d) = df_rows d"
  by (simp add: rename_columns_def)

lemma getitem_once:
  "c \<in> set (df_columns d) \<Longrightarrow> length (filter (\<lambda>c'. c' = c) (df_columns d)) = 1 \<Longrightarrow>
   getitem d c = Inr (Column \<lparr>s_index = df_index d, s_values = column_values d c\<rparr>)"
  by (simp add: getitem_def)

lemma lab7_transform_clean:
  assumes wf: "wf_frame (raw_data s)"
    and cols: "set [''part'', ''movie_name'', ''review_id'', ''author'', ''date'', ''title'',
                    ''grade10'', ''grade3'', ''content''] \<subseteq> set (df_columns (raw_data s))"
    and fresh: "TARGET \<notin> set (df_columns (raw_data s))"
    and labels: "list_all (\<lambda>c. c \<in> {Text ''Good'', Text ''Bad'', Text ''Neutral'', Missing})
                   (column_values (raw_data s) ''grade3'')"
  shows "\<exists>clean. lab7_transform s = (None, s\<lparr>data := Some clean\<rparr>) \<and>
           Missing \<notin> set (column_values clean SOURCE) \<and>
           Missing \<notin> set (column_values clean TARGET)"
proof -
  let ?raw = "raw_data s"
  let ?L = "[''part'', ''movie_name'', ''review_id'', ''author'', ''date'', ''title'', ''grade10'']"
  let ?m = "[(''grade3'', TARGET), (''content'', SOURCE)]"
  let ?f = "\<lambda>c. case map_of ?m c of None \<Rightarrow> c | Some c' \<Rightarrow> c'"
  let ?D = "[(''Good'', 1), (''Bad'', 2), (''Neutral'', 0 :: int)]"
  have sub: "set ?L \<subseteq> set (df_columns ?raw)" using cols by simp
  define dropped where "dropped =
     ?raw\<lparr>df_columns := filter (\<lambda>c. c \<notin> set ?L) (df_columns ?raw),
           df_rows := map (\<lambda>r. map snd (filter (\<lambda>(c, x). c \<notin> set ?L)
                                          (zip (df_columns ?raw) r))) (df_rows ?raw)\<rparr>"
  have dropped: "drop_columns ?L ?raw = Inr dropped"
    unfolding dropped_def by (rule drop_columns_ok[OF sub])
  define d where "d = dropna (rename_columns ?m dropped)"
  have colsd: "df_columns d = map ?f (filter (\<lambda>c. c \<notin> set ?L) (df_columns ?raw))"
    by (simp add: d_def columns_dropna rename_columns_def dropped_def)
  have f_target: "?f c = TARGET \<longleftrightarrow> c = ''grade3''" if "c \<in> set (df_columns ?raw)" for c
    using that fresh by (auto simp: TARGET_def SOURCE_def)
  have target_in: "TARGET \<in> set (df_columns d)"
  proof -
    have "''grade3'' \<in> set (filter (\<lambda>c. c \<notin> set ?L) (df_columns ?raw))" using cols by simp
    then have "?f ''grade3'' \<in> set (df_columns d)" unfolding colsd set_map by (rule imageI)
    then show ?thesis by simp
  qed
  have source_in: "SOURCE \<in> set (df_columns d)"
  proof -
    have "''content'' \<in> set (filter (\<lambda>c. c \<notin> set ?L) (df_columns ?raw))" using cols by simp
    then have "?f ''content'' \<in> set (df_columns d)" unfolding colsd set_map by (rule imageI)
    then show ?thesis by simp
  qed
  have once: "length (filter (\<lambda>c'. c' = TARGET) (df_columns d)) = 1"
    unfolding colsd
  proof (rule renamed_column_once[where old = "''grade3''"])
    show "distinct (df_columns ?raw)" using wf by (simp add: wf_frame_def)
    show "''grade3'' \<in> set (df_columns ?raw)" using cols by simp
    show "''grade3'' \<notin> set ?L" by simp
    show "\<And>c. c \<in> set (df_columns ?raw) \<Longrightarrow> (?f c = TARGET) = (c = ''grade3'')"
      by (rule f_target)
  qed
  define clean where
    "clean = reset_index (setitem d TARGET (map (map_dict ?D) (column_values d TARGET)))"
  have run: "lab7_transform s = (None, s\<lparr>data := Some clean\<rparr>)"
    by (simp add: lab7_transform_def dropped Let_def d_def[symmetric]
        getitem_once[OF target_in once] clean_def)
  have rows: "r \<in> set (df_rows dropped) \<and> Missing \<notin> set r" if "r \<in> set (df_rows d)" for r
    using rows_dropna[of r "rename_columns ?m dropped"] that
    by (simp add: d_def rows_rename_columns)
  have cols_eq: "df_columns d = df_columns (rename_columns ?m dropped)"
    by (simp add: d_def columns_dropna)
  have len: "length r = length (df_columns d)" if "r \<in> set (df_rows d)" for r
    unfolding cols_eq using dropped_renamed_rows(1)[OF wf sub dropped] rows[OF that] by blast
  then have lens: "list_all (\<lambda>r. length r = length (df_columns d)) (df_rows d)"
    by (simp add: list_all_iff)
  have target: "column_values clean TARGET = map (map_dict ?D) (column_values d TARGET)"
    unfolding clean_def by (rule column_values_mapped(1)[OF lens target_in])
  have source: "column_values clean SOURCE = column_values d SOURCE"
    unfolding clean_def
    by (rule column_values_mapped(2)[OF lens target_in]) (simp add: SOURCE_def TARGET_def)
  have no_missing_source: "Missing \<notin> set (column_values clean SOURCE)"
  proof
    assume "Missing \<in> set (column_values clean SOURCE)"
    with source have "Missing \<in> (\<lambda>r. cell_of (df_columns d) r SOURCE) ` set (df_rows d)"
      by (simp add: column_values_def)
    then obtain r where r: "r \<in> set (df_rows d)" "cell_of (df_columns d) r SOURCE = Missing"
      by (auto dest: sym)
    from cell_of_in_row[OF len[OF r(1)] source_in] r(2) have "Missing \<in> set r" by simp
    with rows[OF r(1)] show False by simp
  qed
  have no_missing_target: "Missing \<notin> set (column_values clean TARGET)"
  proof
    assume "Missing \<in> set (column_values clean TARGET)"
    with target
    have "Missing \<in> (\<lambda>r. map_dict ?D (cell_of (df_columns d) r TARGET)) ` set (df_rows d)"
      by (simp add: column_values_def comp_def)
    then obtain r where r: "r \<in> set (df_rows d)"
      "map_dict ?D (cell_of (df_columns d) r TARGET) = Missing"
      by (auto dest: sym)
    from rows[OF r(1)] have rd: "r \<in> set (df_rows dropped)" and nm: "Missing \<notin> set r" by simp_all
    have "\<exists>rr \<in> set (df_rows ?raw).
            cell_of (df_columns (rename_columns ?m dropped)) r TARGET
              = cell_of (df_columns ?raw) rr ''grade3''"
    proof (rule dropped_renamed_rows(2)[OF wf sub dropped rd])
      show "''grade3'' \<notin> set ?L" by simp
      show "?f ''grade3'' = TARGET" by simp
      show "\<And>c. c \<in> set (df_columns ?raw) \<Longrightarrow> c \<noteq> ''grade3'' \<Longrightarrow> ?f c \<noteq> TARGET"
        using f_target by blast
    qed
    then obtain rr where rr: "rr \<in> set (df_rows ?raw)"
      "cell_of (df_columns d) r TARGET = cell_of (df_columns ?raw) rr ''grade3''"
      unfolding cols_eq by blast
    from labels rr(1)
    have "cell_of (df_columns ?raw) rr ''grade3''
            \<in> {Text ''Good'', Text ''Bad'', Text ''Neutral'', Missing}"
      by (simp add: list_all_iff column_values_def)
    moreover from cell_of_in_row[OF len[OF r(1)] target_in] nm
    have "cell_of (df_columns d) r TARGET \<noteq> Missing" by metis
    ultimately have "cell_of (df_columns d) r TARGET \<in> {Text ''Good'', Text ''Bad'', Text ''Neutral''}"
      using rr(2) by auto
    then have "map_dict ?D (cell_of (df_columns d) r TARGET) \<noteq> Missing"
      by (auto simp: map_dict_def)
    with r(2) show False by simp
  qed
  from run no_missing_source no_missing_target show ?thesis by blast
qed

lemma str_accessor_ok_texts: "list_all is_Text vals \<Longrightarrow> str_accessor_ok vals"
proof (cases vals)
  case Nil
  then show ?thesis by (simp add: str_accessor_ok_def)
next
  case (Cons v vs)
  assume "list_all is_Text vals"
  with Cons obtain t where "v = Text t" by (cases v) (auto simp: is_Text_def)
  with Cons show ?thesis by (simp add: str_accessor_ok_def is_Code_def)
qed

lemma lab8_transform_clean:
  assumes wf: "wf_frame (raw_data s)"
    and cols: "set [''id'', ''article'', ''highlights''] \<subseteq> set (df_columns (raw_data s))"
    and fresh: "SOURCE \<notin> set (df_columns (raw_data s))" "TARGET \<notin> set (df_columns (raw_data s))"
    and articles: "list_all is_Text (column_values (raw_data s) ''article'')"
    and highlights: "Missing \<notin> set (column_values (raw_data s) ''highlights'')"
  shows "\<exists>clean. lab8_transform s = (None, s\<lparr>data := Some clean\<rparr>) \<and>
           Missing \<notin> set (column_values clean SOURCE) \<and>
           Missing \<notin> set (column_values clean TARGET)"
proof -
  let ?raw = "raw_data s"
  let ?L = "[''id'']"
  let ?m = "[(''highlights'', TARGET), (''article'', SOURCE)]"
  let ?f = "\<lambda>c. case map_of ?m c of None \<Rightarrow> c | Some c' \<Rightarrow> c'"
  have sub: "set ?L \<subseteq> set (df_columns ?raw)" using cols by simp
  define dropped where "dropped =
     ?raw\<lparr>df_columns := filter (\<lambda>c. c \<notin> set ?L) (df_columns ?raw),
           df_rows := map (\<lambda>r. map snd (filter (\<lambda>(c, x). c \<notin> set ?L)
                                          (zip (df_columns ?raw) r))) (df_rows ?raw)\<rparr>"
  have dropped: "drop_columns ?L ?raw = Inr dropped"
    unfolding dropped_def by (rule drop_columns_ok[OF sub])
  define d where "d = drop_duplicates (rename_columns ?m dropped)"
  have colsd: "df_columns d = map ?f (filter (\<lambda>c. c \<notin> set ?L) (df_columns ?raw))"
    by (simp add: d_def columns_drop_duplicates rename_columns_def dropped_def)
  have f_source: "?f c = SOURCE \<longleftrightarrow> c = ''article''" if "c \<in> set (df_columns ?raw)" for c
    using that fresh by (auto simp: TARGET_def SOURCE_def)
  have f_target: "?f c = TARGET \<longleftrightarrow> c = ''highlights''" if "c \<in> set (df_columns ?raw)" for c
    using that fresh by (auto simp: TARGET_def SOURCE_def)
  have source_in: "SOURCE \<in> set (df_columns d)"
  proof -
    have "''article'' \<in> set (filter (\<lambda>c. c \<notin> set ?L) (df_columns ?raw))" using cols by simp
    then have "?f ''article'' \<in> set (df_columns d)" unfolding colsd set_map by (rule imageI)
    then show ?thesis by simp
  qed
  have once: "length (filter (\<lambda>c'. c' = SOURCE) (df_columns d)) = 1"
    unfolding colsd
  proof (rule renamed_column_once[where old = "''article''"])
    show "distinct (df_columns ?raw)" using wf by (simp add: wf_frame_def)
    show "''article'' \<in> set (df_columns ?raw)" using cols by simp
    show "''article'' \<notin> set ?L" by simp
    show "\<And>c. c \<in> set (df_columns ?raw) \<Longrightarrow> (?f c = SOURCE) = (c = ''article'')"
      by (rule f_source)
  qed
  have rows: "r \<in> set (df_rows dropped)" if "r \<in> set (df_rows d)" for r
    using rows_drop_duplicates[of r "rename_columns ?m dropped"] that
    by (simp add: d_def rows_rename_columns)
  have cols_eq: "df_columns d = df_columns (rename_columns ?m dropped)"
    by (simp add: d_def columns_drop_duplicates)
  have len: "length r = length (df_columns d)" if "r \<in> set (df_rows d)" for r
    unfolding cols_eq using dropped_renamed_rows(1)[OF wf sub dropped] rows[OF that] by blast
  then have lens: "list_all (\<lambda>r. length r = length (df_columns d)) (df_rows d)"
    by (simp add: list_all_iff)
  have source_text: "is_Text (cell_of (df_columns d) r SOURCE)" if "r \<in> set (df_rows d)" for r
  proof -
    have "\<exists>rr \<in> set (df_rows ?raw).
            cell_of (df_columns (rename_columns ?m dropped)) r SOURCE
              = cell_of (df_columns ?raw) rr ''article''"
    proof (rule dropped_renamed_rows(2)[OF wf sub dropped rows[OF that]])
      show "''article'' \<notin> set ?L" by simp
      show "?f ''article'' = SOURCE" by (simp add: TARGET_def SOURCE_def)
      show "\<And>c. c \<in> set (df_columns ?raw) \<Longrightarrow> c \<noteq> ''article'' \<Longrightarrow> ?f c \<noteq> SOURCE"
        using f_source by blast
    qed
    with articles show ?thesis unfolding cols_eq by (auto simp: list_all_iff column_values_def)
  qed
  have target_present: "cell_of (df_columns d) r TARGET \<noteq> Missing" if "r \<in> set (df_rows d)" for r
  proof -
    have "\<exists>rr \<in> set (df_rows ?raw).
            cell_of (df_columns (rename_columns ?m dropped)) r TARGET
              = cell_of (df_columns ?raw) rr ''highlights''"
    proof (rule dropped_renamed_rows(2)[OF wf sub dropped rows[OF that]])
      show "''highlights'' \<notin> set ?L" by simp
      show "?f ''highlights'' = TARGET" by simp
      show "\<And>c. c \<in> set (df_columns ?raw) \<Longrightarrow> c \<noteq> ''highlights'' \<Longrightarrow> ?f c \<noteq> TARGET"
        using f_target by blast
    qed
    with highlights show ?thesis unfolding cols_eq by (auto simp: column_values_def)
  qed
  have texts: "list_all is_Text (column_values d SOURCE)"
    using source_text by (simp add: list_all_iff column_values_def)
  define clean where
    "clean = reset_index (setitem d SOURCE (map str_replace_CNN (column_values d SOURCE)))"
  have src: "''source'' = SOURCE" by (simp add: SOURCE_def)
  have run: "lab8_transform s = (None, s\<lparr>data := Some clean\<rparr>)"
    unfolding lab8_transform_def src
    by (simp add: dropped Let_def d_def[symmetric] getitem_once[OF source_in once]
        str_accessor_ok_texts[OF texts] clean_def)
  have source: "column_values clean SOURCE = map str_replace_CNN (column_values d SOURCE)"
    unfolding clean_def by (rule column_values_mapped(1)[OF lens source_in])
  have target: "column_values clean TARGET = column_values d TARGET"
    unfolding clean_def
    by (rule column_values_mapped(2)[OF lens source_in]) (simp add: SOURCE_def TARGET_def)
  have "\<And>c. is_Text c \<Longrightarrow> str_replace_CNN c \<noteq> Missing"
    by (auto simp: is_Text_def str_replace_CNN_def split: cell.splits)
  with texts have no_missing_source: "Missing \<notin> set (column_values clean SOURCE)"
    unfolding source by (auto simp: list_all_iff dest: sym)
  have no_missing_target: "Missing \<notin> set (column_values clean TARGET)"
    unfolding target using target_present by (auto simp: column_values_def dest: sym)
  from run no_missing_source no_missing_target show ?thesis by blast
qed


subsection \<open>Running the preprocessors\<close>

lemma lab7_transform_reviews:
  "lab7_transform \<lparr>raw_data = reviews_raw, data = None\<rparr> =
     (None, \<lparr>raw_data = reviews_raw,
             data = Some \<lparr>df_columns = [''target'', ''source''], df_index = [0, 1],
                          df_rows = [[Code 1, Text ''good movie''],
                                     [Missing, Text ''great movie'']]\<rparr>\<rparr>)"
  by (simp add: lab7_transform_def reviews_raw_def drop_columns_def rename_columns_def dropna_def
      getitem_def column_values_def cell_of_def setitem_def map_dict_def reset_index_def
      TARGET_def SOURCE_def Let_def)

lemma lab8_transform_articles:
  "lab8_transform \<lparr>raw_data = articles_raw, data = None\<rparr> =
     (None, \<lparr>raw_data = articles_raw,
             data = Some \<lparr>df_columns = [''source'', ''target''], df_index = [0, 1],
                          df_rows = [[Text ''Rain fell.'', Text ''Rain.''],
                                     [Text ''Snow fell.'', Missing]]\<rparr>\<rparr>)"
  by (simp add: lab8_transform_def articles_raw_def drop_columns_def rename_columns_def
      drop_duplicates_def getitem_def column_values_def cell_of_def setitem_def
      str_replace_CNN_def str_accessor_ok_def is_Code_def reset_index_def remove_CNN.simps
      TARGET_def SOURCE_def Let_def)

subsection \<open>Idempotence\<close>

lemma lab7_transform_shape:
  "\<exists>e d. \<forall>s'. raw_data s' = raw_data s \<longrightarrow>
      lab7_transform s' = (e, case d of None \<Rightarrow> s' | Some x \<Rightarrow> s'\<lparr>data := Some x\<rparr>)"
proof (cases "drop_columns [''part'', ''movie_name'', ''review_id'', ''author'', ''date'',
                         ''title'', ''grade10''] (raw_data s)")
  case (Inl e)
  then show ?thesis
    by (intro exI[of _ "Some e"] exI[of _ None]) (simp add: lab7_transform_def)
next
  case (Inr dropped)
  let ?d = "dropna (rename_columns [(''grade3'', TARGET), (''content'', SOURCE)] dropped)"
  show ?thesis
  proof (cases "getitem ?d TARGET")
    case (Inl e)
    with Inr show ?thesis
      by (intro exI[of _ "Some e"] exI[of _ "Some ?d"]) (simp add: lab7_transform_def Let_def)
  next
    case sel: (Inr selected)
    show ?thesis
    proof (cases selected)
      case SubFrame
      with Inr sel show ?thesis
        by (intro exI[of _ "Some (TypeError ''the first argument must be callable'')"]
            exI[of _ "Some ?d"]) (simp add: lab7_transform_def Let_def)
    next
      case (Column target)
      with Inr sel show ?thesis
        by (intro exI[of _ None]
            exI[of _ "Some (reset_index (setitem ?d TARGET
                  (map (map_dict [(''Good'', 1), (''Bad'', 2), (''Neutral'', 0)])
                     (s_values target))))"]) (simp add: lab7_transform_def Let_def)
    qed
  qed
qed

lemma lab8_transform_shape:
  "\<exists>e d. \<forall>s'. raw_data s' = raw_data s \<longrightarrow>
      lab8_transform s' = (e, case d of None \<Rightarrow> s' | Some x \<Rightarrow> s'\<lparr>data := Some x\<rparr>)"
proof (cases "drop_columns [''id''] (raw_data s)")
  case (Inl e)
  then show ?thesis
    by (intro exI[of _ "Some e"] exI[of _ None]) (simp add: lab8_transform_def)
next
  case (Inr dropped)
  let ?d = "drop_duplicates (rename_columns [(''highlights'', TARGET), (''article'', SOURCE)] dropped)"
  show ?thesis
  proof (cases "getitem ?d ''source''")
    case (Inl e)
    with Inr show ?thesis
      by (intro exI[of _ "Some e"] exI[of _ "Some ?d"]) (simp add: lab8_transform_def Let_def)
  next
    case sel: (Inr selected)
    show ?thesis
    proof (cases selected)
      case SubFrame
      with Inr sel show ?thesis
        by (intro exI[of _ "Some (AttributeError ''DataFrame object has no attribute str'')"]
            exI[of _ "Some ?d"]) (simp add: lab8_transform_def Let_def)
    next
      case (Column source)
      show ?thesis
      proof (cases "str_accessor_ok (s_values source)")
        case True
        with Inr sel Column show ?thesis
          by (intro exI[of _ None]
              exI[of _ "Some (reset_index (setitem ?d ''source''
                    (map str_replace_CNN (s_values source))))"])
            (simp add: lab8_transform_def Let_def)
      next
        case False
        with Inr sel Column show ?thesis
          by (intro exI[of _ "Some (AttributeError ''Can only use .str accessor with string values!'')"]
              exI[of _ "Some ?d"]) (simp add: lab8_transform_def Let_def)
      qed
    qed
  qed
qed

lemma shape_idempotent:
  assumes "\<forall>s'. raw_data s' = raw_data s \<longrightarrow>
      f s' = (e, case d of None \<Rightarrow> s' | Some x \<Rightarrow> s'\<lparr>data := Some x\<rparr>)"
  shows "f (snd (f s)) = f s \<and> raw_data (snd (f s)) = raw_data s"
proof -
  let ?u = "\<lambda>s'. case d of None \<Rightarrow> s' | Some x \<Rightarrow> s'\<lparr>data := Some x\<rparr>"
  from assms have 1: "f s = (e, ?u s)" by simp
  have 2: "raw_data (?u s) = raw_data s" by (cases d) simp_all
  with assms have "f (?u s) = (e, ?u (?u s))" by blast
  moreover have "?u (?u s) = ?u s" by (cases d) simp_all
  ultimately show ?thesis using 1 2 by simp
qed

text \<open>
  C3. In both laboratories a second \<open>transform\<close> right after the first ends as the
  first did, with the same clean table (and the same exception, when it raises):
  \<open>transform\<close> reads the raw table only and leaves it as it was.
\<close>

theorem transform_idempotent:
  "lab7_transform (snd (lab7_transform s)) = lab7_transform s \<and>
   lab8_transform (snd (lab8_transform s)) = lab8_transform s \<and>
   raw_data (snd (lab7_transform s)) = raw_data s \<and>
   raw_data (snd (lab8_transform s)) = raw_data s"
proof -
  from lab7_transform_shape[of s] obtain e7 d7 where
    "\<forall>s'. raw_data s' = raw_data s \<longrightarrow>
      lab7_transform s' = (e7, case d7 of None \<Rightarrow> s' | Some x \<Rightarrow> s'\<lparr>data := Some x\<rparr>)" by blast
  from shape_idempotent[OF this] have l7:
    "lab7_transform (snd (lab7_transform s)) = lab7_transform s"
    "raw_data (snd (lab7_transform s)) = raw_data s" by simp_all
  from lab8_transform_shape[of s] obtain e8 d8 where
    "\<forall>s'. raw_data s' = raw_data s \<longrightarrow>
      lab8_transform s' = (e8, case d8 of None \<Rightarrow> s' | Some x \<Rightarrow> s'\<lparr>data := Some x\<rparr>)" by blast
  from shape_idempotent[OF this] have l8:
    "lab8_transform (snd (lab8_transform s)) = lab8_transform s"
    "raw_data (snd (lab8_transform s)) = raw_data s" by simp_all
  from l7 l8 show ?thesis by simp
qed

theorem transform_idempotent_witness:
  "lab7_transform (snd (lab7_transform \<lparr>raw_data = reviews_raw, data = None\<rparr>)) =
     (None, \<lparr>raw_data = reviews_raw,
             data = Some \<lparr>df_columns = [''target'', ''source''], df_index = [0, 1],
                          df_rows = [[Code 1, Text ''good movie''],
                                     [Missing, Text ''great movie'']]\<rparr>\<rparr>) \<and>
   lab8_transform (snd (lab8_transform \<lparr>raw_data = articles_raw, data = None\<rparr>)) =
     (None, \<lparr>raw_data = articles_raw,
             data = Some \<lparr>df_columns = [''source'', ''target''], df_index = [0, 1],
                          df_rows = [[Text ''Rain fell.'', Text ''Rain.''],
                                     [Text ''Snow fell.'', Missing]]\<rparr>\<rparr>)"
  using transform_idempotent[of "\<lparr>raw_data = reviews_raw, data = None\<rparr>"]
    transform_idempotent[of "\<lparr>raw_data = articles_raw, data = None\<rparr>"]
  by (simp only: lab7_transform_reviews lab8_transform_articles)

subsection \<open>Missing values\<close>

text \<open>
  C4, as the code has it. Laboratory 7 drops the rows with a missing value before it
  remaps the labels, and the remapping turns every label other than Good, Bad and
  Neutral into a missing value: for a raw table with the dataset's columns whose labels
  are among the three (or missing), \<open>transform\<close> succeeds and the clean table has no
  missing value in the source or the target column. Laboratory 8 drops duplicate rows
  only: for a raw table with the dataset's columns, text in every article and no missing
  highlights, \<open>transform\<close> succeeds and the clean table has no missing value in the
  source or the target column.
\<close>

theorem transform_no_missing_values:
  assumes "wf_frame (raw_data s7)"
    and "set [''part'', ''movie_name'', ''review_id'', ''author'', ''date'', ''title'',
              ''grade10'', ''grade3'', ''content''] \<subseteq> set (df_columns (raw_data s7))"
    and "TARGET \<notin> set (df_columns (raw_data s7))"
    and "list_all (\<lambda>c. c \<in> {Text ''Good'', Text ''Bad'', Text ''Neutral'', Missing})
           (column_values (raw_data s7) ''grade3'')"
    and "wf_frame (raw_data s8)"
    and "set [''id'', ''article'', ''highlights''] \<subseteq> set (df_columns (raw_data s8))"
    and "SOURCE \<notin> set (df_columns (raw_data s8))"
    and "TARGET \<notin> set (df_columns (raw_data s8))"
    and "list_all is_Text (column_values (raw_data s8) ''article'')"
    and "Missing \<notin> set (column_values (raw_data s8) ''highlights'')"
  shows "(\<exists>clean. lab7_transform s7 = (None, s7\<lparr>data := Some clean\<rparr>) \<and>
            Missing \<notin> set (column_values clean SOURCE) \<and>
            Missing \<notin> set (column_values clean TARGET)) \<and>
         (\<exists>clean. lab8_transform s8 = (None, s8\<lparr>data := Some clean\<rparr>) \<and>
            Missing \<notin> set (column_values clean SOURCE) \<and>
            Missing \<notin> set (column_values clean TARGET))"
  using lab7_transform_clean[OF assms(1-4)] lab8_transform_clean[OF assms(5-10)] by blast

theorem transform_no_missing_values_witness:
  "(\<exists>clean. lab7_transform \<lparr>raw_data = reviews_labelled, data = None\<rparr>
              = (None, \<lparr>raw_data = reviews_labelled, data = Some clean\<rparr>) \<and>
      Missing \<notin> set (column_values clean SOURCE) \<and>
      Missing \<notin> set (column_values clean TARGET)) \<and>
   (\<exists>clean. lab8_transform \<lparr>raw_data = articles_complete, data = None\<rparr>
              = (None, \<lparr>raw_data = articles_complete, data = Some clean\<rparr>) \<and>
      Missing \<notin> set (column_values clean SOURCE) \<and>
      Missing \<notin> set (column_values clean TARGET))"
proof -
  have "wf_frame reviews_labelled"
    by (simp add: reviews_labelled_def reviews_raw_def wf_frame_def)
  moreover have "set [''part'', ''movie_name'', ''review_id'', ''author'', ''date'', ''title'',
              ''grade10'', ''grade3'', ''content''] \<subseteq> set (df_columns reviews_labelled)"
    by (simp add: reviews_labelled_def reviews_raw_def)
  moreover have "TARGET \<notin> set (df_columns reviews_labelled)"
    by (simp add: reviews_labelled_def reviews_raw_def TARGET_def)
  moreover have "list_all (\<lambda>c. c \<in> {Text ''Good'', Text ''Bad'', Text ''Neutral'', Missing})
           (column_values reviews_labelled ''grade3'')"
    by (simp add: reviews_labelled_def reviews_raw_def column_values_def cell_of_def)
  moreover have "wf_frame articles_complete"
    by (simp add: articles_complete_def articles_raw_def wf_frame_def)
  moreover have "set [''id'', ''article'', ''highlights''] \<subseteq> set (df_columns articles_complete)"
    by (simp add: articles_complete_def articles_raw_def)
  moreover have "SOURCE \<notin> set (df_columns articles_complete)"
    "TARGET \<notin> set (df_columns articles_complete)"
    by (simp_all add: articles_complete_def articles_raw_def TARGET_def SOURCE_def)
  moreover have "list_all is_Text (column_values articles_complete ''article'')"
    by (simp add: articles_complete_def articles_raw_def column_values_def cell_of_def is_Text_def)
  moreover have "Missing \<notin> set (column_values articles_complete ''highlights'')"
    by (simp add: articles_complete_def articles_raw_def column_values_def cell_of_def)
  ultimately show ?thesis
    using transform_no_missing_values[of "\<lparr>raw_data = reviews_labelled, data = None\<rparr>"
        "\<lparr>raw_data = articles_complete, data = None\<rparr>"]
    by simp
qed

text \<open>
  The claim fails in both laboratories. In laboratory 7 the review labelled
  \<open>Excellent\<close> survives \<open>dropna\<close> and its target becomes missing; in laboratory 8 the
  article without highlights is kept.
\<close>

theorem transform_missing_counterexample:
  "snd (lab7_transform \<lparr>raw_data = reviews_raw, data = None\<rparr>) =
     \<lparr>raw_data = reviews_raw,
      data = Some \<lparr>df_columns = [''target'', ''source''], df_index = [0, 1],
                   df_rows = [[Code 1, Text ''good movie''],
                              [Missing, Text ''great movie'']]\<rparr>\<rparr> \<and>
   column_values \<lparr>df_columns = [''target'', ''source''], df_index = [0, 1],
                  df_rows = [[Code 1, Text ''good movie''],
                             [Missing, Text ''great movie'']]\<rparr> TARGET = [Code 1, Missing] \<and>
   snd (lab8_transform \<lparr>raw_data = articles_raw, data = None\<rparr>) =
     \<lparr>raw_data = articles_raw,
      data = Some \<lparr>df_columns = [''source'', ''target''], df_index = [0, 1],
                   df_rows = [[Text ''Rain fell.'', Text ''Rain.''],
                              [Text ''Snow fell.'', Missing]]\<rparr>\<rparr> \<and>
   column_values \<lparr>df_columns = [''source'', ''target''], df_index = [0, 1],
                  df_rows = [[Text ''Rain fell.'', Text ''Rain.''],
                             [Text ''Snow fell.'', Missing]]\<rparr> TARGET = [Text ''Rain.'', Missing]"
  by (simp add: lab7_transform_reviews lab8_transform_articles column_values_def cell_of_def
      TARGET_def)

section \<open>Whole-dataset inference\<close>














lemma chunk_lengths: "0 < n \<Longrightarrow> list_all (\<lambda>b. b \<noteq> [] \<and> length b \<le> n) (chunks n xs)"
proof (induction n xs rule: chunks.induct)
  case (1 n xs)
  show ?case
  proof (cases "xs = []")
    case True
    then show ?thesis by (simp add: chunks.simps)
  next
    case False
    with 1 show ?thesis by (subst chunks.simps) simp
  qed
qed









section \<open>The predictions file\<close>

subsection \<open>Numerals read back\<close>

lemma digit_of_digit_char: "d < 10 \<Longrightarrow> digit_of (digit_char d) = Some d"
proof -
  assume "d < 10"
  then have "d \<in> {0, 1, 2, 3, 4, 5, 6, 7, 8, 9}" by auto
  then show ?thesis
    by (auto simp: digit_of_def digit_char_def upt_rec)
qed

lemma digit_char_plain: "d < 10 \<Longrightarrow> \<not> special_char (digit_char d) \<and> digit_char d \<noteq> CHR ''-''"
proof -
  assume "d < 10"
  then have "d \<in> {0, 1, 2, 3, 4, 5, 6, 7, 8, 9}" by auto
  then show ?thesis
    by (auto simp: special_char_def digit_char_def)
qed

lemma parse_digits_append:
  "parse_digits acc (xs @ [c]) =
     (case parse_digits acc xs of
        None \<Rightarrow> None
      | Some a \<Rightarrow> (case digit_of c of None \<Rightarrow> None | Some d \<Rightarrow> Some (10 * a + d)))"
  by (induction xs arbitrary: acc) (auto split: option.splits)

lemma parse_digits_str_nat: "parse_digits 0 (str_nat n) = Some n"
proof (induction n rule: str_nat.induct)
  case (1 n)
  show ?case
  proof (cases "n < 10")
    case True
    then show ?thesis by (subst str_nat.simps) (simp add: digit_of_digit_char)
  next
    case False
    with 1 have "parse_digits 0 (str_nat (n div 10)) = Some (n div 10)" by simp
    with False show ?thesis
      by (subst str_nat.simps) (simp add: parse_digits_append digit_of_digit_char)
  qed
qed

lemma parse_nat_str_nat: "parse_nat (str_nat n) = Some n"
  by (simp add: parse_nat_def str_nat_nonempty parse_digits_str_nat)

lemma str_nat_chars: "c \<in> set (str_nat n) \<Longrightarrow> \<not> special_char c \<and> c \<noteq> CHR ''-''"
proof (induction n rule: str_nat.induct)
  case (1 n)
  show ?case
  proof (cases "n < 10")
    case True
    with 1(2) show ?thesis by (subst (asm) str_nat.simps) (simp add: digit_char_plain)
  next
    case False
    with 1(2) have "c \<in> set (str_nat (n div 10)) \<or> c = digit_char (n mod 10)"
      by (subst (asm) str_nat.simps) auto
    with 1(1) False show ?thesis by (auto simp: digit_char_plain)
  qed
qed

lemma parse_int_str_int: "parse_int (str_int i) = Some i"
proof (cases "i < 0")
  case True
  then show ?thesis by (simp add: str_int_def parse_int_def parse_nat_str_nat)
next
  case False
  obtain c cs where s: "str_nat (nat i) = c # cs"
    using str_nat_nonempty[of "nat i"] by (cases "str_nat (nat i)") auto
  then have "c \<in> set (str_nat (nat i))" by simp
  then have "c \<noteq> CHR ''-''" using str_nat_chars by blast
  with False s parse_nat_str_nat[of "nat i"] show ?thesis
    by (simp add: str_int_def parse_int_def)
qed

lemma parse_int64_str_int: "int64 i \<Longrightarrow> parse_int64 (str_int i) = Some i"
  by (simp add: parse_int64_def parse_int_str_int)

lemma str_int_as_nat: "str_nat n = str_int (int n)"
  by (simp add: str_int_def)

lemma plain_str_int: "plain_field (str_int i)"
  using str_nat_chars by (auto simp: plain_field_def str_int_def list_ex_iff special_char_def)

lemma str_int_nonempty: "str_int i \<noteq> []"
  by (simp add: str_int_def str_nat_nonempty)

subsection \<open>Splitting what was joined\<close>

lemma split_on_nonempty: "split_on sep s \<noteq> []"
  by (induction s) (auto split: list.splits)

lemma split_on_plain: "sep \<notin> set f \<Longrightarrow> split_on sep f = [f]"
  by (induction f) auto

lemma split_on_append: "sep \<notin> set f \<Longrightarrow> split_on sep (f @ sep # rest) = f # split_on sep rest"
  by (induction f) (auto simp: split_on_nonempty split: list.splits)

lemma split_on_join:
  "fs \<noteq> [] \<Longrightarrow> list_all (\<lambda>f. sep \<notin> set f) fs \<Longrightarrow> sep = CHR '','' \<Longrightarrow>
   split_on sep (join_fields fs) = fs"
proof (induction fs rule: join_fields.induct)
  case 1
  then show ?case by simp
next
  case (2 f)
  then show ?case by (simp add: split_on_plain)
next
  case (3 f g gs)
  then show ?case by (simp add: split_on_append)
qed

lemma split_on_lines:
  "list_all (\<lambda>l. sep \<notin> set l) ls \<Longrightarrow>
   split_on sep (concat (map (\<lambda>l. l @ [sep]) ls)) = ls @ [[]]"
  by (induction ls) (simp_all add: split_on_append)

lemma set_join_fields: "set (join_fields fs) \<subseteq> insert (CHR '','') (\<Union> (set ` set fs))"
  by (induction fs rule: join_fields.induct) auto

lemma join_fields_nonempty: "f \<noteq> [] \<Longrightarrow> join_fields (f # fs) \<noteq> []"
  by (cases fs) auto

lemma join_fields_header_nonempty: "fs \<noteq> [] \<Longrightarrow> join_fields ([] # fs) \<noteq> []"
  by (cases fs) auto

subsection \<open>Reading back what was written\<close>

lemma plain_field_chars:
  "plain_field f \<Longrightarrow>
   CHR '','' \<notin> set f \<and> CHR 0x0A \<notin> set f \<and> CHR 0x22 \<notin> set f \<and> CHR 0x0D \<notin> set f"
  by (auto simp: plain_field_def list_ex_iff special_char_def)

lemma join_fields_chars:
  assumes "list_all plain_field fs"
  shows "CHR 0x0A \<notin> set (join_fields fs) \<and> CHR 0x22 \<notin> set (join_fields fs) \<and>
         CHR 0x0D \<notin> set (join_fields fs)"
proof -
  have "\<And>c. c \<in> set (join_fields fs) \<Longrightarrow> c = CHR '','' \<or> (\<exists>f \<in> set fs. c \<in> set f)"
    using set_join_fields[of fs] by auto
  moreover have "\<And>f. f \<in> set fs \<Longrightarrow> plain_field f" using assms by (simp add: list_all_iff)
  ultimately show ?thesis using plain_field_chars by fastforce
qed

lemma split_joined_fields:
  "fs \<noteq> [] \<Longrightarrow> list_all plain_field fs \<Longrightarrow> split_on (CHR '','') (join_fields fs) = fs"
proof -
  assume "fs \<noteq> []" and "list_all plain_field fs"
  then have "list_all (\<lambda>f. CHR '','' \<notin> set f) fs"
    using plain_field_chars by (auto simp: list_all_iff)
  with \<open>fs \<noteq> []\<close> show ?thesis by (intro split_on_join) simp_all
qed

lemma concat_csv_lines:
  "concat (map csv_line rs) = concat (map (\<lambda>l. l @ [CHR 0x0A]) (map join_fields rs))"
  by (simp add: csv_line_def[abs_def] comp_def)

lemma lines_of_csv:
  assumes "list_all (list_all plain_field) rs" "list_all (\<lambda>r. join_fields r \<noteq> []) rs"
  shows "filter (\<lambda>l. l \<noteq> []) (split_on (CHR 0x0A) (concat (map csv_line rs))) = map join_fields rs"
proof -
  have "list_all (\<lambda>l. CHR 0x0A \<notin> set l) (map join_fields rs)"
    using assms(1) join_fields_chars by (auto simp: list_all_iff)
  then have "split_on (CHR 0x0A) (concat (map csv_line rs)) = map join_fields rs @ [[]]"
    unfolding concat_csv_lines by (rule split_on_lines)
  moreover have "filter (\<lambda>l. l \<noteq> []) (map join_fields rs) = map join_fields rs"
    using assms(2) by (auto simp: list_all_iff filter_id_conv)
  ultimately show ?thesis by simp
qed

lemma no_quotes_in_csv:
  assumes "list_all (list_all plain_field) rs"
  shows "\<not> list_ex (\<lambda>c. c = CHR 0x22 \<or> c = CHR 0x0D) (concat (map csv_line rs))"
proof -
  have "\<And>r. r \<in> set rs \<Longrightarrow>
          CHR 0x22 \<notin> set (csv_line r) \<and> CHR 0x0D \<notin> set (csv_line r)"
    using assms join_fields_chars by (auto simp: list_all_iff csv_line_def)
  then show ?thesis by (auto simp: list_ex_iff)
qed

lemma split_all_records:
  "list_all (\<lambda>r. r \<noteq> []) rs \<Longrightarrow> list_all (list_all plain_field) rs \<Longrightarrow>
   map (split_on (CHR '','')) (map join_fields rs) = rs"
  by (induction rs) (simp_all add: split_joined_fields)

text \<open>The reader on a file of a header and records, all of plain fields.\<close>

lemma read_csv_written:
  assumes hdr: "hdr \<noteq> []" "list_all plain_field hdr" "join_fields hdr \<noteq> []"
    and recs: "list_all (\<lambda>r. r \<noteq> []) recs" "list_all (list_all plain_field) recs"
      "list_all (\<lambda>r. join_fields r \<noteq> []) recs"
    and names: "distinct (header_names hdr)"
    and parsed: "parse_records (length hdr) recs = Some rows"
  shows "read_csv (concat (map csv_line (hdr # recs)))
           = Some \<lparr>df_columns = header_names hdr, df_index = [0 ..< length rows], df_rows = rows\<rparr>"
proof -
  let ?text = "concat (map csv_line (hdr # recs))"
  have all_plain: "list_all (list_all plain_field) (hdr # recs)" using hdr(2) recs(2) by simp
  have all_nonempty: "list_all (\<lambda>r. join_fields r \<noteq> []) (hdr # recs)"
    using hdr(3) recs(3) by simp
  have q: "\<not> list_ex (\<lambda>c. c = CHR 0x22 \<or> c = CHR 0x0D) ?text"
    by (rule no_quotes_in_csv[OF all_plain])
  have lines: "filter (\<lambda>l. l \<noteq> []) (split_on (CHR 0x0A) ?text)
               = join_fields hdr # map join_fields recs"
    using lines_of_csv[OF all_plain all_nonempty] by simp
  have h: "split_on (CHR '','') (join_fields hdr) = hdr"
    by (rule split_joined_fields[OF hdr(1,2)])
  have r: "map (split_on (CHR '','')) (map join_fields recs) = recs"
    by (rule split_all_records[OF recs(1,2)])
  have len: "length (header_names hdr) = length hdr" by (simp add: header_names_def)
  show ?thesis
    unfolding read_csv_def using q
    by (simp only: lines if_False list.case h r Let_def names len parsed not_True_eq_False
        not_not option.case simp_thms)
qed

lemma parse_records_map:
  "(\<And>y. y \<in> set ys \<Longrightarrow> length (F y) = w \<and> parse_fields (F y) = Some (G y)) \<Longrightarrow>
   parse_records w (map F ys) = Some (map G ys)"
  by (induction ys) simp_all

lemma plain_names: "plain_field TARGET" "plain_field PREDICTION" "plain_field []"
  by (simp_all add: plain_field_def TARGET_def PREDICTION_def special_char_def)

lemma header_names_predictions:
  "header_names [[], TARGET, PREDICTION] = [''Unnamed: 0'', TARGET, PREDICTION]"
  by (simp add: header_names_def upt_rec TARGET_def PREDICTION_def str_nat.simps digit_char_def)

text \<open>
  A predictions table of integer targets and numeral predictions, under a dense index:
  the text written, and the table read back from it.
\<close>

lemma to_csv_numerals:
  "to_csv \<lparr>df_columns = [TARGET, PREDICTION], df_index = [0 ..< length xs],
           df_rows = map (\<lambda>x. [Code (t x), Text (str_int (p x))]) xs\<rparr>
   = Some (concat (map csv_line
             ([[], TARGET, PREDICTION] #
              map (\<lambda>(i, x). [str_nat i, str_int (t x), str_int (p x)])
                  (zip [0 ..< length xs] xs))))"
proof -
  let ?out = "\<lparr>df_columns = [TARGET, PREDICTION], df_index = [0 ..< length xs],
               df_rows = map (\<lambda>x. [Code (t x), Text (str_int (p x))]) xs\<rparr>"
  have names: "\<not> list_ex (\<lambda>c. \<not> plain_field c) (df_columns ?out)"
    by (simp add: plain_names)
  have cells: "\<not> list_ex (list_ex (\<lambda>c. \<not> plain_field (render_cell c))) (df_rows ?out)"
    by (simp add: list_ex_iff render_cell_def plain_str_int)
  have tcol: "column_values ?out TARGET = map (\<lambda>x. Code (t x)) xs"
    by (simp add: column_values_def cell_of_def comp_def)
  have pcol: "column_values ?out PREDICTION = map (\<lambda>x. Text (str_int (p x))) xs"
    by (simp add: column_values_def cell_of_def comp_def TARGET_def PREDICTION_def)
  have "\<not> float_column (map (\<lambda>x. Code (t x)) xs)"
    by (auto simp: float_column_def list_ex_iff)
  moreover have "\<not> float_column (map (\<lambda>x. Text (str_int (p x))) xs)"
    by (auto simp: float_column_def list_ex_iff is_Code_def)
  ultimately have floats:
    "\<not> list_ex (\<lambda>c. float_column (column_values ?out c)) (df_columns ?out)"
    by (simp add: tcol pcol)
  have rows: "map (\<lambda>(i, r). csv_line (str_nat i # map render_cell r))
                (zip (df_index ?out) (df_rows ?out))
              = map csv_line (map (\<lambda>(i, x). [str_nat i, str_int (t x), str_int (p x)])
                                 (zip [0 ..< length xs] xs))"
    by (simp add: zip_map2 render_cell_def case_prod_beta comp_def)
  have "to_csv ?out = Some (csv_line ([] # df_columns ?out) @
          concat (map (\<lambda>(i, r). csv_line (str_nat i # map render_cell r))
                      (zip (df_index ?out) (df_rows ?out))))"
    unfolding to_csv_def using names cells floats by simp
  also have "\<dots> = Some (concat (map csv_line
             ([[], TARGET, PREDICTION] #
              map (\<lambda>(i, x). [str_nat i, str_int (t x), str_int (p x)])
                  (zip [0 ..< length xs] xs))))"
    unfolding rows by simp
  finally show ?thesis .
qed

lemma read_csv_numerals:
  assumes "length xs < 2 ^ 63" "\<And>x. x \<in> set xs \<Longrightarrow> int64 (t x) \<and> int64 (p x)"
  shows "read_csv (concat (map csv_line
             ([[], TARGET, PREDICTION] #
              map (\<lambda>(i, x). [str_nat i, str_int (t x), str_int (p x)])
                  (zip [0 ..< length xs] xs))))
         = Some \<lparr>df_columns = [''Unnamed: 0'', TARGET, PREDICTION],
                 df_index = [0 ..< length xs],
                 df_rows = map (\<lambda>(i, x). [Code (int i), Code (t x), Code (p x)])
                               (zip [0 ..< length xs] xs)\<rparr>"
proof -
  let ?F = "\<lambda>(i, x). [str_nat i, str_int (t x), str_int (p x)]"
  let ?G = "\<lambda>(i, x). [Code (int i), Code (t x), Code (p x)]"
  let ?ys = "zip [0 ..< length xs] xs"
  have parsed: "parse_records (length [[], TARGET, PREDICTION]) (map ?F ?ys) = Some (map ?G ?ys)"
  proof (rule parse_records_map)
    fix y assume y: "y \<in> set ?ys"
    obtain i x where ix: "y = (i, x)" by (cases y)
    with y have "i < length xs" "x \<in> set xs" by (auto dest: set_zip_leftD set_zip_rightD)
    with assms have "int64 (int i)" "int64 (t x)" "int64 (p x)"
      by (auto simp: int64_def)
    then show "length (?F y) = length [[], TARGET, PREDICTION] \<and> parse_fields (?F y) = Some (?G y)"
      unfolding ix by (simp add: str_int_as_nat parse_int64_str_int)
  qed
  have "read_csv (concat (map csv_line ([[], TARGET, PREDICTION] # map ?F ?ys)))
        = Some \<lparr>df_columns = header_names [[], TARGET, PREDICTION],
                df_index = [0 ..< length (map ?G ?ys)], df_rows = map ?G ?ys\<rparr>"
  proof (rule read_csv_written[OF _ _ _ _ _ _ _ parsed])
    show "[[], TARGET, PREDICTION] \<noteq> []" by simp
    show "list_all plain_field [[], TARGET, PREDICTION]" by (simp add: plain_names)
    show "join_fields [[], TARGET, PREDICTION] \<noteq> []" by simp
    show "list_all (\<lambda>r. r \<noteq> []) (map ?F ?ys)" by (simp add: list_all_iff case_prod_beta)
    show "list_all (list_all plain_field) (map ?F ?ys)"
      by (simp add: list_all_iff case_prod_beta plain_str_int str_int_as_nat)
    show "list_all (\<lambda>r. join_fields r \<noteq> []) (map ?F ?ys)"
      by (simp add: list_all_iff case_prod_beta str_nat_nonempty)
    show "distinct (header_names [[], TARGET, PREDICTION])"
      by (simp add: header_names_predictions) (simp add: TARGET_def PREDICTION_def)
  qed
  then show ?thesis by (simp add: header_names_predictions)
qed

text \<open>The classifier's predictions are decimal numerals.\<close>

lemma lab7_prediction_numeral:
  "(if k = 0 then ''2'' else str_int (int k)) = str_int (if k = 0 then 2 else int k)"
  by (simp add: str_int_2)

lemma map_zip_right: "length xs = length ys \<Longrightarrow> map (\<lambda>(i, y). h y) (zip xs ys) = map h ys"
  by (induction xs ys rule: list_induct2) simp_all

lemma aligned_predictions_numerals:
  assumes dense: "df_index d = [0 ..< len_frame d]"
    and targets: "list_all is_Code (column_values d TARGET)"
  shows "aligned_predictions d (\<lambda>s. str_int (q s))
         = \<lparr>df_columns = [TARGET, PREDICTION], df_index = [0 ..< length (df_rows d)],
            df_rows = map (\<lambda>r. [Code (code_of (cell_of (df_columns d) r TARGET)),
                                Text (str_int (q (text_of (cell_of (df_columns d) r SOURCE))))])
                          (df_rows d)\<rparr>"
proof -
  have "\<And>r. r \<in> set (df_rows d) \<Longrightarrow>
          cell_of (df_columns d) r TARGET = Code (code_of (cell_of (df_columns d) r TARGET))"
  proof -
    fix r assume "r \<in> set (df_rows d)"
    with targets have "is_Code (cell_of (df_columns d) r TARGET)"
      by (simp add: list_all_iff column_values_def)
    then show "cell_of (df_columns d) r TARGET = Code (code_of (cell_of (df_columns d) r TARGET))"
      by (cases "cell_of (df_columns d) r TARGET") (simp_all add: is_Code_def code_of_def)
  qed
  then show ?thesis
    using dense by (simp add: aligned_predictions_def len_frame_def)
qed

text \<open>
  C7, as the code has it. Take the table that laboratory-7 inference returns over a
  dataset with a dense index and integer targets: the targets paired with predictions
  that are decimal numerals (all within 64 bits). The demo writes it with the index, so
  the file read back has three columns, \<open>Unnamed: 0\<close> (the index), \<open>target\<close> and
  \<open>prediction\<close>, and one row per dataset item, in order; every target is read back as it
  was, and every prediction as the integer that its numeral denotes. The evaluator's
  scorers receive exactly these targets and integers.
\<close>

theorem predictions_file_roundtrip:
  assumes "df_index d = [0 ..< len_frame d]"
    and "len_frame d < 2 ^ 63"
    and "list_all (\<lambda>c. is_Code c \<and> int64 (code_of c)) (column_values d TARGET)"
    and "\<And>s. int64 (q s)"
  shows "\<exists>text files'.
           write_predictions (aligned_predictions d (\<lambda>s. str_int (q s))) (te7_data_path ev) files
             = Some files' \<and>
           files' (te7_data_path ev) = Some text \<and>
           read_csv text =
             Some \<lparr>df_columns = [''Unnamed: 0'', TARGET, PREDICTION],
                   df_index = [0 ..< len_frame d],
                   df_rows = map (\<lambda>(i, r). [Code (int i), cell_of (df_columns d) r TARGET,
                                            Code (q (text_of (cell_of (df_columns d) r SOURCE)))])
                                 (zip [0 ..< len_frame d] (df_rows d))\<rparr> \<and>
           lab7_TaskEvaluator_run ev files' =
             Some (compute_metrics (te7_metrics_dict ev)
                     (column_values d TARGET)
                     (map (\<lambda>c. Code (q (text_of c))) (column_values d SOURCE)))"
proof -
  let ?t = "\<lambda>r. code_of (cell_of (df_columns d) r TARGET)"
  let ?p = "\<lambda>r. q (text_of (cell_of (df_columns d) r SOURCE))"
  let ?xs = "df_rows d"
  let ?out = "aligned_predictions d (\<lambda>s. str_int (q s))"
  define content where "content = concat (map csv_line
             ([[], TARGET, PREDICTION] #
              map (\<lambda>(i, x). [str_nat i, str_int (?t x), str_int (?p x)])
                  (zip [0 ..< length ?xs] ?xs)))"
  let ?R = "\<lparr>df_columns = [''Unnamed: 0'', TARGET, PREDICTION],
             df_index = [0 ..< length ?xs],
             df_rows = map (\<lambda>(i, x). [Code (int i), Code (?t x), Code (?p x)])
                           (zip [0 ..< length ?xs] ?xs)\<rparr>"
  have codes: "list_all is_Code (column_values d TARGET)"
    using assms(3) by (simp add: list_all_iff)
  have target_cell: "Code (?t r) = cell_of (df_columns d) r TARGET" if "r \<in> set ?xs" for r
  proof -
    from codes that have "is_Code (cell_of (df_columns d) r TARGET)"
      by (simp add: list_all_iff column_values_def)
    then show ?thesis
      by (cases "cell_of (df_columns d) r TARGET") (simp_all add: is_Code_def code_of_def)
  qed
  have out: "?out = \<lparr>df_columns = [TARGET, PREDICTION], df_index = [0 ..< length ?xs],
                      df_rows = map (\<lambda>r. [Code (?t r), Text (str_int (?p r))]) ?xs\<rparr>"
    by (rule aligned_predictions_numerals[OF assms(1) codes])
  have written: "to_csv ?out = Some content"
    unfolding out content_def by (rule to_csv_numerals)
  have ranges: "\<And>r. r \<in> set ?xs \<Longrightarrow> int64 (?t r) \<and> int64 (?p r)"
    using assms(3,4) by (simp add: list_all_iff column_values_def)
  have read: "read_csv content = Some ?R"
    unfolding content_def using assms(2) ranges
    by (intro read_csv_numerals) (simp_all add: len_frame_def)
  have rows: "df_rows ?R = map (\<lambda>(i, r). [Code (int i), cell_of (df_columns d) r TARGET,
                                            Code (?p r)]) (zip [0 ..< len_frame d] ?xs)"
    using target_cell by (auto simp: len_frame_def dest: set_zip_rightD)
  have refs: "column_values ?R TARGET = column_values d TARGET"
  proof -
    have "column_values ?R TARGET = map (\<lambda>(i, r). Code (?t r)) (zip [0 ..< length ?xs] ?xs)"
      by (simp add: column_values_def cell_of_def TARGET_def case_prod_beta comp_def)
    also have "\<dots> = map (\<lambda>r. Code (?t r)) ?xs" by (rule map_zip_right) simp
    also have "\<dots> = column_values d TARGET"
      using target_cell by (simp add: column_values_def)
    finally show ?thesis .
  qed
  have preds: "column_values ?R PREDICTION = map (\<lambda>c. Code (q (text_of c))) (column_values d SOURCE)"
  proof -
    have "column_values ?R PREDICTION = map (\<lambda>(i, r). Code (?p r)) (zip [0 ..< length ?xs] ?xs)"
      by (simp add: column_values_def cell_of_def TARGET_def PREDICTION_def case_prod_beta comp_def)
    also have "\<dots> = map (\<lambda>r. Code (?p r)) ?xs" by (rule map_zip_right) simp
    finally show ?thesis by (simp add: column_values_def comp_def)
  qed
  have inputs: "evaluator_inputs ?R
      = Inr (column_values d TARGET, map (\<lambda>c. Code (q (text_of c))) (column_values d SOURCE))"
  proof -
    have "getitem ?R TARGET = Inr (Column \<lparr>s_index = df_index ?R,
                                           s_values = column_values ?R TARGET\<rparr>)"
      by (rule getitem_once) (simp_all add: TARGET_def PREDICTION_def)
    moreover have "getitem ?R PREDICTION = Inr (Column \<lparr>s_index = df_index ?R,
                                           s_values = column_values ?R PREDICTION\<rparr>)"
      by (rule getitem_once) (simp_all add: TARGET_def PREDICTION_def)
    ultimately show ?thesis by (simp add: evaluator_inputs_def refs preds)
  qed
  let ?files = "files(te7_data_path ev \<mapsto> content)"
  have "write_predictions ?out (te7_data_path ev) files = Some ?files"
    by (simp add: write_predictions_def written)
  moreover have "?files (te7_data_path ev) = Some content" by simp
  moreover have "read_csv content =
             Some \<lparr>df_columns = [''Unnamed: 0'', TARGET, PREDICTION],
                   df_index = [0 ..< len_frame d],
                   df_rows = map (\<lambda>(i, r). [Code (int i), cell_of (df_columns d) r TARGET,
                                            Code (?p r)])
                                 (zip [0 ..< len_frame d] ?xs)\<rparr>"
    using read rows by (simp add: len_frame_def)
  moreover have "lab7_TaskEvaluator_run ev ?files =
             Some (compute_metrics (te7_metrics_dict ev)
                     (column_values d TARGET)
                     (map (\<lambda>c. Code (q (text_of c))) (column_values d SOURCE)))"
    by (simp add: lab7_TaskEvaluator_run_def read inputs)
  ultimately show ?thesis by blast
qed

theorem predictions_file_roundtrip_witness:
  "\<exists>text files'.
     write_predictions (aligned_predictions three_reviews (\<lambda>s. str_int 1)) ''dist/predictions.csv''
       Map.empty = Some files' \<and>
     files' ''dist/predictions.csv'' = Some text \<and>
     read_csv text =
       Some \<lparr>df_columns = [''Unnamed: 0'', ''target'', ''prediction''], df_index = [0, 1, 2],
             df_rows = [[Code 0, Code 1, Code 1], [Code 1, Code 2, Code 1],
                        [Code 2, Code 0, Code 1]]\<rparr> \<and>
     lab7_TaskEvaluator_run
       \<lparr>te7_data_path = ''dist/predictions.csv'',
        te7_metrics_dict = [(''f1'', \<lambda>references predictions. [(''f1'', (references, predictions))])]\<rparr>
       files' =
       Some (Inr [(''f1'', ([Code 1, Code 2, Code 0], [Code 1, Code 1, Code 1]))])"
proof -
  have "df_index three_reviews = [0 ..< len_frame three_reviews]"
    by (simp add: three_reviews_def len_frame_def upt_rec)
  moreover have "len_frame three_reviews < 2 ^ 63"
    by (simp add: three_reviews_def len_frame_def)
  moreover have "list_all (\<lambda>c. is_Code c \<and> int64 (code_of c)) (column_values three_reviews TARGET)"
    by (simp add: three_reviews_def column_values_def cell_of_def TARGET_def is_Code_def
        code_of_def int64_def)
  moreover have "\<And>s :: string. int64 1" by (simp add: int64_def)
  ultimately obtain content files' where
    w: "write_predictions (aligned_predictions three_reviews (\<lambda>s. str_int 1))
          ''dist/predictions.csv'' Map.empty = Some files'"
    and f: "files' ''dist/predictions.csv'' = Some content"
    and r: "read_csv content =
       Some \<lparr>df_columns = [''Unnamed: 0'', TARGET, PREDICTION],
             df_index = [0 ..< len_frame three_reviews],
             df_rows = map (\<lambda>(i, r). [Code (int i), cell_of (df_columns three_reviews) r TARGET,
                             Code (1 :: int)])
                           (zip [0 ..< len_frame three_reviews] (df_rows three_reviews))\<rparr>"
    and e: "lab7_TaskEvaluator_run
       \<lparr>te7_data_path = ''dist/predictions.csv'',
        te7_metrics_dict = [(''f1'', \<lambda>references predictions. [(''f1'', (references, predictions))])]\<rparr>
       files' =
       Some (compute_metrics
               [(''f1'', \<lambda>references predictions. [(''f1'', (references, predictions))])]
               (column_values three_reviews TARGET)
               (map (\<lambda>c. Code 1) (column_values three_reviews SOURCE)))"
    using predictions_file_roundtrip[of three_reviews "\<lambda>s. 1"
        "\<lparr>te7_data_path = ''dist/predictions.csv'',
          te7_metrics_dict = [(''f1'', \<lambda>references predictions.
                                         [(''f1'', (references, predictions))])]\<rparr>"
        Map.empty]
    by auto
  have table: "\<lparr>df_columns = [''Unnamed: 0'', TARGET, PREDICTION],
             df_index = [0 ..< len_frame three_reviews],
             df_rows = map (\<lambda>(i, r). [Code (int i), cell_of (df_columns three_reviews) r TARGET,
                             Code (1 :: int)])
                           (zip [0 ..< len_frame three_reviews] (df_rows three_reviews))\<rparr>
        = \<lparr>df_columns = [''Unnamed: 0'', ''target'', ''prediction''], df_index = [0, 1, 2],
             df_rows = [[Code 0, Code 1, Code 1], [Code 1, Code 2, Code 1],
                        [Code 2, Code 0, Code 1]]\<rparr>"
    by code_simp
  have cols: "column_values three_reviews TARGET = [Code 1, Code 2, Code 0]"
    "map (\<lambda>c. Code 1) (column_values three_reviews SOURCE) = [Code 1, Code 1, Code 1]"
    by code_simp+
  have scores: "compute_metrics
               [(''f1'', \<lambda>references predictions. [(''f1'', (references, predictions))])]
               (column_values three_reviews TARGET)
               (map (\<lambda>c. Code 1) (column_values three_reviews SOURCE))
        = Inr [(''f1'', ([Code 1, Code 2, Code 0], [Code 1, Code 1, Code 1]))]"
    unfolding cols by simp
  from w f r e show ?thesis unfolding table scores by blast
qed

text \<open>
  The claim fails on the spec's own scenario: the file written for three reviews, all
  predicted "1", has three fields per line, the first being the index; read back it has
  the three columns \<open>Unnamed: 0\<close>, \<open>target\<close> and \<open>prediction\<close>, and the predictions, written
  as the strings "1", come back as the integers 1.
\<close>

theorem predictions_file_counterexample:
  "to_csv (aligned_predictions three_reviews (\<lambda>s. ''1'')) =
     Some '',target,prediction\<newline>0,1,1\<newline>1,2,1\<newline>2,0,1\<newline>'' \<and>
   column_values (aligned_predictions three_reviews (\<lambda>s. ''1'')) PREDICTION =
     [Text ''1'', Text ''1'', Text ''1''] \<and>
   read_csv '',target,prediction\<newline>0,1,1\<newline>1,2,1\<newline>2,0,1\<newline>'' =
     Some \<lparr>df_columns = [''Unnamed: 0'', ''target'', ''prediction''], df_index = [0, 1, 2],
           df_rows = [[Code 0, Code 1, Code 1], [Code 1, Code 2, Code 1],
                      [Code 2, Code 0, Code 1]]\<rparr> \<and>
   column_values
     \<lparr>df_columns = [''Unnamed: 0'', ''target'', ''prediction''], df_index = [0, 1, 2],
      df_rows = [[Code 0, Code 1, Code 1], [Code 1, Code 2, Code 1],
                 [Code 2, Code 0, Code 1]]\<rparr> PREDICTION = [Code 1, Code 1, Code 1]"
  by code_simp

end
